theory Spec2Isabelle
  imports Main "HOL-Library.Word"
begin

section \<open>Go values used by the REST API\<close>

text \<open>
  The back end is the Go program listed in the tutorial: \<^verbatim>\<open>pkg/core\<close>,
  \<^verbatim>\<open>pkg/storage/mongo.go\<close>, \<^verbatim>\<open>pkg/kudo/service.go\<close>,
  \<^verbatim>\<open>pkg/http/middlewares.go\<close> and \<^verbatim>\<open>pkg/http/handlers.go\<close>.
  Go's \<^verbatim>\<open>int\<close> is 32 or 64 bits wide, depending on the target the program is
  built for; \<^verbatim>\<open>int64\<close> is always 64 bits. The width is a parameter of the model.
\<close>

datatype arch = Int32 | Int64

fun IntSize :: "arch \<Rightarrow> nat" where
  "IntSize Int32 = 32"
| "IntSize Int64 = 64"

type_synonym int64 = "64 word"

text \<open>
  The conversion \<^verbatim>\<open>int(x)\<close> of an \<^verbatim>\<open>int64\<close>: the low \<open>IntSize\<close> bits,
  read in two's complement. The conversion \<^verbatim>\<open>int64(n)\<close> of an \<^verbatim>\<open>int\<close>
  never loses anything.
\<close>

definition to_int :: "arch \<Rightarrow> int64 \<Rightarrow> int" where
  "to_int a x = signed_take_bit (IntSize a - 1) (sint x)"

definition to_int64 :: "int \<Rightarrow> int64" where
  "to_int64 n = word_of_int n"

text \<open>Errors are values. \<open>ErrNotFound\<close> is the driver's \<^verbatim>\<open>mgo.ErrNotFound\<close>.\<close>

datatype go_error = ErrNotFound | ErrSyntax | ErrRange | ErrOther string

fun Error :: "go_error \<Rightarrow> string" where
  "Error ErrNotFound = ''not found''"
| "Error ErrSyntax = ''invalid syntax''"
| "Error ErrRange = ''value out of range''"
| "Error (ErrOther msg) = msg"

text \<open>A panic of the running goroutine, as against a returned value.\<close>

datatype 'a outcome = Panic string | Return 'a

subsection \<open>Package strconv\<close>

text \<open>
  \<^verbatim>\<open>strconv.Itoa\<close> writes the decimal digits of the magnitude, after a minus sign
  for a negative number.
\<close>

definition digit_char :: "nat \<Rightarrow> char" where
  "digit_char d = ''0123456789'' ! d"

function digits :: "nat \<Rightarrow> string" where
  "digits n = (if n < 10 then [digit_char n] else digits (n div 10) @ [digit_char (n mod 10)])"
  by pat_completeness auto
termination
  by (relation "measure id") auto

declare digits.simps [simp del]

definition Itoa :: "int \<Rightarrow> string" where
  "Itoa i = (if i < 0 then CHR ''-'' # digits (nat (- i)) else digits (nat i))"

text \<open>
  \<^verbatim>\<open>strconv.ParseUint(s, 10, bitSize)\<close>: the loop over the bytes of \<open>s\<close>. A byte
  that is not a decimal digit ends the loop with a syntax error and the value 0; a digit
  that takes the number past \<open>maxVal\<close> ends it at once with a range error and the value
  \<open>maxVal\<close>, whatever follows in the string. \<open>cutoff\<close> is the least number whose
  tenfold exceeds the largest \<^verbatim>\<open>uint64\<close>, and the addition is the \<^verbatim>\<open>uint64\<close>
  one, which wraps.
\<close>

definition is_digit :: "char \<Rightarrow> bool" where
  "is_digit c = (48 \<le> (of_char c :: nat) \<and> (of_char c :: nat) \<le> 57)"

definition digit_val :: "char \<Rightarrow> nat" where
  "digit_val c = of_char c - 48"

definition maxUint64 :: nat where
  "maxUint64 = 2 ^ 64 - 1"

definition cutoff :: nat where
  "cutoff = maxUint64 div 10 + 1"

fun ParseUint_loop :: "nat \<Rightarrow> nat \<Rightarrow> string \<Rightarrow> nat \<times> go_error option" where
  "ParseUint_loop maxVal n [] = (n, None)"
| "ParseUint_loop maxVal n (c # cs) =
     (if is_digit c then
        (if n \<ge> cutoff then (maxVal, Some ErrRange)
         else (let n1 = (n * 10 + digit_val c) mod 2 ^ 64 in
               if n1 < n \<or> n1 > maxVal then (maxVal, Some ErrRange)
               else ParseUint_loop maxVal n1 cs))
      else (0, Some ErrSyntax))"

definition ParseUint :: "string \<Rightarrow> nat \<Rightarrow> nat \<times> go_error option" where
  "ParseUint s bitSize =
     (if s = [] then (0, Some ErrSyntax) else ParseUint_loop (2 ^ bitSize - 1) 0 s)"

text \<open>
  \<^verbatim>\<open>strconv.ParseInt(s, 10, bitSize)\<close>: an optional sign, then \<open>ParseUint\<close>. A
  syntax error gives 0; a magnitude out of range gives the nearest bound with a range
  error.
\<close>

definition ParseInt :: "string \<Rightarrow> nat \<Rightarrow> int \<times> go_error option" where
  "ParseInt s bitSize =
     (case s of
        [] \<Rightarrow> (0, Some ErrSyntax)
      | c # cs \<Rightarrow>
          (let neg = (c = CHR ''-'');
               s' = (if c = CHR ''+'' \<or> c = CHR ''-'' then cs else s);
               (un, err) = ParseUint s' bitSize;
               cut = (2 :: nat) ^ (bitSize - 1)
           in if err \<noteq> None \<and> err \<noteq> Some ErrRange then (0, err)
              else if \<not> neg \<and> un \<ge> cut then (int cut - 1, Some ErrRange)
              else if neg \<and> un > cut then (- int cut, Some ErrRange)
              else (if neg then - int un else int un, None)))"

text \<open>
  \<^verbatim>\<open>strconv.Atoi(s)\<close> is \<^verbatim>\<open>ParseInt(s, 10, 0)\<close>, where the bit size 0 stands for
  the width of \<^verbatim>\<open>int\<close>. (The fast path of later Go versions for short strings
  returns the same results.)
\<close>

definition Atoi :: "arch \<Rightarrow> string \<Rightarrow> int \<times> go_error option" where
  "Atoi a s = ParseInt s (IntSize a)"

section \<open>Package core: the stored record\<close>

text \<open>\<^verbatim>\<open>core.Kudo\<close>: the bookmark as it is stored, every field a string.\<close>

record Kudo =
  UserID :: string
  RepoID :: string
  RepoName :: string
  RepoURL :: string
  Language :: string
  Description :: string
  Notes :: string

text \<open>The zero value of the struct, as \<^verbatim>\<open>var kudo core.Kudo\<close> declares it.\<close>

definition Kudo_zero :: Kudo where
  "Kudo_zero = \<lparr>UserID = [], RepoID = [], RepoName = [], RepoURL = [], Language = [],
     Description = [], Notes = []\<rparr>"

section \<open>The MongoDB collection behind the mgo driver\<close>

text \<open>
  The driver (\<^verbatim>\<open>github.com/globalsign/mgo\<close>) and the database are not part of the
  repository. They are modelled by what the driver documents for a session in safe mode,
  which is the mode of a session made by \<^verbatim>\<open>mgo.Dial\<close>:
  \<^item> the collection \<^verbatim>\<open>kudos\<close> is a sequence of documents, in natural order;
  \<^item> a selector \<^verbatim>\<open>bson.M\<close> matches a document when every field it names has the
    value it gives, under the field names of the struct's \<^verbatim>\<open>bson\<close> tags;
  \<^item> \<^verbatim>\<open>Find(sel).One\<close> gives the first match or \<open>ErrNotFound\<close>,
    \<^verbatim>\<open>Find(sel).All\<close> all matches;
  \<^item> \<^verbatim>\<open>Remove(sel)\<close> removes the first match and \<^verbatim>\<open>Update(sel, doc)\<close>
    replaces it; both return \<open>ErrNotFound\<close> when no document matches;
  \<^item> \<^verbatim>\<open>Upsert(sel, doc)\<close> replaces the first match, or inserts the document when
    there is none;
  \<^item> any operation can fail for a reason of the connection; then it returns that error
    and changes nothing. The field \<open>fault\<close> of the state says whether it does.
  The state also holds the lines the program has logged.
\<close>

record world =
  docs :: "Kudo list"
  fault :: "go_error option"
  logged :: "string list"

type_synonym selector = "(string \<times> string) list"

definition bson_field :: "Kudo \<Rightarrow> string \<Rightarrow> string option" where
  "bson_field k f =
     (if f = ''userId'' then Some (UserID k)
      else if f = ''repoId'' then Some (RepoID k)
      else if f = ''repoName'' then Some (RepoName k)
      else if f = ''repoUrl'' then Some (RepoURL k)
      else if f = ''language'' then Some (Language k)
      else if f = ''description'' then Some (Description k)
      else if f = ''notes'' then Some (Notes k)
      else None)"

definition matches :: "selector \<Rightarrow> Kudo \<Rightarrow> bool" where
  "matches sel k = list_all (\<lambda>(f, v). bson_field k f = Some v) sel"

fun remove_first :: "selector \<Rightarrow> Kudo list \<Rightarrow> Kudo list option" where
  "remove_first sel [] = None"
| "remove_first sel (d # ds) =
     (if matches sel d then Some ds else map_option (Cons d) (remove_first sel ds))"

fun replace_first :: "selector \<Rightarrow> Kudo \<Rightarrow> Kudo list \<Rightarrow> Kudo list option" where
  "replace_first sel k [] = None"
| "replace_first sel k (d # ds) =
     (if matches sel d then Some (k # ds) else map_option (Cons d) (replace_first sel k ds))"

definition coll_Find_One :: "selector \<Rightarrow> world \<Rightarrow> go_error + Kudo" where
  "coll_Find_One sel st =
     (case fault st of
        Some e \<Rightarrow> Inl e
      | None \<Rightarrow> (case find (matches sel) (docs st) of None \<Rightarrow> Inl ErrNotFound | Some d \<Rightarrow> Inr d))"

definition coll_Find_All :: "selector \<Rightarrow> world \<Rightarrow> go_error + Kudo list" where
  "coll_Find_All sel st =
     (case fault st of Some e \<Rightarrow> Inl e | None \<Rightarrow> Inr (filter (matches sel) (docs st)))"

definition coll_Remove :: "selector \<Rightarrow> world \<Rightarrow> go_error option \<times> world" where
  "coll_Remove sel st =
     (case fault st of
        Some e \<Rightarrow> (Some e, st)
      | None \<Rightarrow>
          (case remove_first sel (docs st) of
             None \<Rightarrow> (Some ErrNotFound, st)
           | Some ds \<Rightarrow> (None, st\<lparr>docs := ds\<rparr>)))"

definition coll_Update :: "selector \<Rightarrow> Kudo \<Rightarrow> world \<Rightarrow> go_error option \<times> world" where
  "coll_Update sel k st =
     (case fault st of
        Some e \<Rightarrow> (Some e, st)
      | None \<Rightarrow>
          (case replace_first sel k (docs st) of
             None \<Rightarrow> (Some ErrNotFound, st)
           | Some ds \<Rightarrow> (None, st\<lparr>docs := ds\<rparr>)))"

definition coll_Upsert :: "selector \<Rightarrow> Kudo \<Rightarrow> world \<Rightarrow> go_error option \<times> world" where
  "coll_Upsert sel k st =
     (case fault st of
        Some e \<Rightarrow> (Some e, st)
      | None \<Rightarrow>
          (case replace_first sel k (docs st) of
             None \<Rightarrow> (None, st\<lparr>docs := docs st @ [k]\<rparr>)
           | Some ds \<Rightarrow> (None, st\<lparr>docs := ds\<rparr>)))"

definition coll_Count :: "world \<Rightarrow> go_error + nat" where
  "coll_Count st = (case fault st of Some e \<Rightarrow> Inl e | None \<Rightarrow> Inr (length (docs st)))"

section \<open>Package storage: MongoRepository\<close>

text \<open>
  Each method copies the session, works on the collection and closes the copy; the model
  passes the state. \<open>Find\<close> and \<open>FindAll\<close> log the error they return, through the
  logger whose prefix is \<^verbatim>\<open>[mongoDB] \<close>.
\<close>

definition logger_Printf_error :: "go_error \<Rightarrow> world \<Rightarrow> world" where
  "logger_Printf_error err st =
     st\<lparr>logged := logged st @ [''[mongoDB] error: '' @ Error err]\<rparr>"

text \<open>
  \<open>Find\<close> has the repository identifier as its only parameter. The user identifier of
  its selector is the field of the local \<^verbatim>\<open>kudo\<close>, declared just before and still
  the zero value.
\<close>

definition MongoRepository_Find :: "string \<Rightarrow> world \<Rightarrow> (go_error + Kudo) \<times> world" where
  "MongoRepository_Find repoID st =
     (let kudo = Kudo_zero
      in case coll_Find_One [(''repoId'', repoID), (''userId'', UserID kudo)] st of
           Inl err \<Rightarrow> (Inl err, logger_Printf_error err st)
         | Inr found \<Rightarrow> (Inr found, st))"

definition MongoRepository_FindAll :: "selector \<Rightarrow> world \<Rightarrow> (go_error + Kudo list) \<times> world" where
  "MongoRepository_FindAll sel st =
     (case coll_Find_All sel st of
        Inl err \<Rightarrow> (Inl err, logger_Printf_error err st)
      | Inr kudos \<Rightarrow> (Inr kudos, st))"

definition MongoRepository_Delete :: "Kudo \<Rightarrow> world \<Rightarrow> go_error option \<times> world" where
  "MongoRepository_Delete kudo st =
     coll_Remove [(''repoId'', RepoID kudo), (''userId'', UserID kudo)] st"

definition MongoRepository_Update :: "Kudo \<Rightarrow> world \<Rightarrow> go_error option \<times> world" where
  "MongoRepository_Update kudo st =
     coll_Update [(''repoId'', RepoID kudo), (''userId'', UserID kudo)] kudo st"

text \<open>\<open>Create\<close> upserts its arguments in order and stops at the first error.\<close>

fun MongoRepository_Create :: "Kudo list \<Rightarrow> world \<Rightarrow> go_error option \<times> world" where
  "MongoRepository_Create [] st = (None, st)"
| "MongoRepository_Create (kudo # kudos) st =
     (case coll_Upsert [(''repoId'', RepoID kudo), (''userId'', UserID kudo)] kudo st of
        (Some err, st') \<Rightarrow> (Some err, st')
      | (None, st') \<Rightarrow> MongoRepository_Create kudos st')"

definition MongoRepository_Count :: "world \<Rightarrow> go_error + nat" where
  "MongoRepository_Count st = coll_Count st"

section \<open>Package kudo: the service\<close>

text \<open>
  \<^verbatim>\<open>kudo.GitHubRepo\<close> is the repository as a request carries it; its identifier is
  an \<^verbatim>\<open>int64\<close>. The fields are prefixed here, since the stored record has fields of
  the same names.
\<close>

record GitHubRepo =
  gh_RepoID :: int64
  gh_RepoURL :: string
  gh_RepoName :: string
  gh_Language :: string
  gh_Description :: string
  gh_Notes :: string

definition GitHubRepo_zero :: GitHubRepo where
  "GitHubRepo_zero = \<lparr>gh_RepoID = 0, gh_RepoURL = [], gh_RepoName = [], gh_Language = [],
     gh_Description = [], gh_Notes = []\<rparr>"

text \<open>
  The service holds the user it is bound to. Its other field, the repository, is the
  \<open>MongoRepository\<close> above in every run of the program; the model passes the state of
  the collection instead.
\<close>

record Service =
  userId :: string

definition NewService :: "string \<Rightarrow> Service" where
  "NewService uid = \<lparr>userId = uid\<rparr>"

definition githubRepoToKudo :: "arch \<Rightarrow> Service \<Rightarrow> GitHubRepo \<Rightarrow> Kudo" where
  "githubRepoToKudo a s githubRepo =
     \<lparr>UserID = userId s,
      RepoID = Itoa (to_int a (gh_RepoID githubRepo)),
      RepoName = gh_RepoName githubRepo,
      RepoURL = gh_RepoURL githubRepo,
      Language = gh_Language githubRepo,
      Description = gh_Description githubRepo,
      Notes = gh_Notes githubRepo\<rparr>"

definition GetKudos :: "Service \<Rightarrow> world \<Rightarrow> (go_error + Kudo list) \<times> world" where
  "GetKudos s st = MongoRepository_FindAll [(''userId'', userId s)] st"

definition CreateKudoFor :: "arch \<Rightarrow> Service \<Rightarrow> GitHubRepo \<Rightarrow> world \<Rightarrow> (go_error + Kudo) \<times> world" where
  "CreateKudoFor a s githubRepo st =
     (let kudo = githubRepoToKudo a s githubRepo
      in case MongoRepository_Create [kudo] st of
           (Some err, st') \<Rightarrow> (Inl err, st')
         | (None, st') \<Rightarrow> (Inr kudo, st'))"

definition UpdateKudoWith :: "arch \<Rightarrow> Service \<Rightarrow> GitHubRepo \<Rightarrow> world \<Rightarrow> (go_error + Kudo) \<times> world" where
  "UpdateKudoWith a s githubRepo st =
     (let kudo = githubRepoToKudo a s githubRepo
      in case MongoRepository_Create [kudo] st of
           (Some err, st') \<Rightarrow> (Inl err, st')
         | (None, st') \<Rightarrow> (Inr kudo, st'))"

definition RemoveKudo :: "arch \<Rightarrow> Service \<Rightarrow> GitHubRepo \<Rightarrow> world \<Rightarrow> (go_error + Kudo) \<times> world" where
  "RemoveKudo a s githubRepo st =
     (let kudo = githubRepoToKudo a s githubRepo
      in case MongoRepository_Delete kudo st of
           (Some err, st') \<Rightarrow> (Inl err, st')
         | (None, st') \<Rightarrow> (Inr kudo, st'))"

section \<open>Package http: requests and responses\<close>

text \<open>
  What is written to a response: raw bytes, or the JSON encoding of a record or of a list
  of records (the encoding itself is left abstract).
\<close>

datatype chunk = Bytes string | JSON_Kudo Kudo | JSON_Kudos "Kudo list"

text \<open>
  \<^verbatim>\<open>http.ResponseWriter\<close>: the header map under construction, the status line and
  the headers as they were sent (\<open>None\<close> until \<open>WriteHeader\<close> is first called; a
  later change of the header map does not reach the client), and the body written so
  far. \<open>Write\<close> sends the status 200 first when none has been sent.
\<close>

record ResponseWriter =
  Header :: "string \<rightharpoonup> string"
  sent :: "(nat \<times> (string \<rightharpoonup> string)) option"
  written :: "chunk list"

definition ResponseWriter_new :: ResponseWriter where
  "ResponseWriter_new = \<lparr>Header = Map.empty, sent = None, written = []\<rparr>"

definition Header_Set :: "string \<Rightarrow> string \<Rightarrow> ResponseWriter \<Rightarrow> ResponseWriter" where
  "Header_Set k v w = w\<lparr>Header := (Header w)(k \<mapsto> v)\<rparr>"

definition WriteHeader :: "nat \<Rightarrow> ResponseWriter \<Rightarrow> ResponseWriter" where
  "WriteHeader code w = (case sent w of None \<Rightarrow> w\<lparr>sent := Some (code, Header w)\<rparr> | Some x \<Rightarrow> w)"

definition Write :: "chunk \<Rightarrow> ResponseWriter \<Rightarrow> ResponseWriter" where
  "Write c w = (let w' = WriteHeader 200 w in w'\<lparr>written := written w' @ [c]\<rparr>)"

definition status_sent :: "ResponseWriter \<Rightarrow> nat option" where
  "status_sent w = map_option fst (sent w)"

definition header_sent :: "ResponseWriter \<Rightarrow> string \<Rightarrow> string option" where
  "header_sent w k = (case sent w of None \<Rightarrow> None | Some (code, hs) \<Rightarrow> hs k)"

definition StatusOK :: nat where "StatusOK = 200"
definition StatusCreated :: nat where "StatusCreated = 201"
definition StatusForbidden :: nat where "StatusForbidden = 403"
definition StatusInternalServerError :: nat where "StatusInternalServerError = 500"

text \<open>
  \<^verbatim>\<open>http.Request\<close>: \<open>ReqHeader r k\<close> is \<^verbatim>\<open>r.Header[k]\<close>, the empty slice for
  a header the request does not carry; \<open>Context\<close> holds the values attached with
  \<^verbatim>\<open>context.WithValue\<close>.
\<close>

record Request =
  Method :: string
  RequestURI :: string
  ReqHeader :: "string \<Rightarrow> string list"
  ReqBody :: string
  Context :: "string \<rightharpoonup> string"

type_synonym handler = "ResponseWriter \<Rightarrow> Request \<Rightarrow> world \<Rightarrow> (ResponseWriter \<times> world) outcome"

subsection \<open>middlewares.go\<close>

text \<open>
  \<^verbatim>\<open>strings.Split(s, sep)\<close> for a separator of one byte: the pieces between the
  separators, one piece (the string itself) when there is no separator.
\<close>

fun Split :: "string \<Rightarrow> char \<Rightarrow> string list" where
  "Split [] sep = [[]]"
| "Split (c # cs) sep =
     (if c = sep then [] # Split cs sep
      else (case Split cs sep of [] \<Rightarrow> [[c]] | p # ps \<Rightarrow> (c # p) # ps))"

text \<open>
  The token verifier of \<^verbatim>\<open>okta-jwt-verifier-golang\<close> is a parameter: it returns the
  token's claims or an error. A claim is a string or some other JSON value.
\<close>

datatype claim = ClaimString string | ClaimOther

record Jwt =
  Claims :: "string \<rightharpoonup> claim"

type_synonym verifier = "string \<Rightarrow> go_error + Jwt"

text \<open>
  \<open>validateAccessToken\<close> indexes the header's values at 0 and the pieces of the first
  value at 1, with no check of either length: Go panics on an index out of range.
\<close>

definition validateAccessToken :: "verifier \<Rightarrow> string list \<Rightarrow> (go_error + Jwt) outcome" where
  "validateAccessToken VerifyIdToken accessToken =
     (case accessToken of
        [] \<Rightarrow> Panic ''index out of range [0] with length 0''
      | a0 # rest \<Rightarrow>
          (let parts = Split a0 CHR '' ''
           in if 1 < length parts then Return (VerifyIdToken (parts ! 1))
              else Panic ''index out of range [1] with length 1''))"

definition OktaAuth :: "verifier \<Rightarrow> handler \<Rightarrow> handler" where
  "OktaAuth VerifyIdToken h w r st =
     (let accessToken = ReqHeader r ''Authorization''
      in case validateAccessToken VerifyIdToken accessToken of
           Panic msg \<Rightarrow> Panic msg
         | Return (Inl err) \<Rightarrow>
             Return (Write (Bytes (Error err)) (WriteHeader StatusForbidden w), st)
         | Return (Inr jwt) \<Rightarrow>
             (case Claims jwt ''sub'' of
                Some (ClaimString sub) \<Rightarrow> h w (r\<lparr>Context := (Context r)(''userId'' \<mapsto> sub)\<rparr>) st
              | Some ClaimOther \<Rightarrow> Panic ''interface conversion: interface {} is not string''
              | None \<Rightarrow> Panic ''interface conversion: interface {} is nil, not string''))"

definition JSONApi :: "handler \<Rightarrow> handler" where
  "JSONApi h w r st = h (Header_Set ''Content-Type'' ''application/json'' w) r st"

definition AccsessLog :: "handler \<Rightarrow> handler" where
  "AccsessLog h w r st = h w r (st\<lparr>logged := logged st @ [Method r @ '': '' @ RequestURI r]\<rparr>)"

text \<open>
  The handler of \<^verbatim>\<open>github.com/rs/cors\<close> answers a preflight request (the method
  \<^verbatim>\<open>OPTIONS\<close> with the header \<^verbatim>\<open>Access-Control-Request-Method\<close>) itself and
  passes every other request on, after adding its headers. Which headers it adds, and
  the status of its answer to a preflight, are the library's: they are parameters.
\<close>

record cors_lib =
  preflightHeaders :: "Request \<Rightarrow> (string \<times> string) list"
  preflightStatus :: nat
  actualHeaders :: "Request \<Rightarrow> (string \<times> string) list"

definition add_headers :: "(string \<times> string) list \<Rightarrow> ResponseWriter \<Rightarrow> ResponseWriter" where
  "add_headers hs w = fold (\<lambda>(k, v). Header_Set k v) hs w"

text \<open>\<^verbatim>\<open>r.Header.Get(k)\<close>: the first value of the header, or the empty string.\<close>

definition Header_Get :: "Request \<Rightarrow> string \<Rightarrow> string" where
  "Header_Get r k = (case ReqHeader r k of [] \<Rightarrow> [] | v # vs \<Rightarrow> v)"

definition Cors :: "cors_lib \<Rightarrow> handler \<Rightarrow> handler" where
  "Cors c h w r st =
     (if Method r = ''OPTIONS'' \<and> Header_Get r ''Access-Control-Request-Method'' \<noteq> []
      then Return (WriteHeader (preflightStatus c) (add_headers (preflightHeaders c r) w), st)
      else h (add_headers (actualHeaders c r) w) r st)"

definition UseMiddlewares :: "verifier \<Rightarrow> cors_lib \<Rightarrow> handler \<Rightarrow> handler" where
  "UseMiddlewares VerifyIdToken c h =
     (let h1 = JSONApi h;
          h2 = OktaAuth VerifyIdToken h1;
          h3 = Cors c h2
      in AccsessLog h3)"

subsection \<open>handlers.go\<close>

text \<open>
  The router (\<^verbatim>\<open>httprouter\<close>) matches the method and the path and calls the
  handler with the path's parameters. \<^verbatim>\<open>json.Unmarshal\<close> is a parameter: given
  the payload and the value to fill, it returns the value as it leaves it and its error.
  The handlers drop the errors of \<^verbatim>\<open>ioutil.ReadAll\<close>, \<^verbatim>\<open>json.Unmarshal\<close> and
  \<^verbatim>\<open>strconv.Atoi\<close>.
\<close>

type_synonym Params = "(string \<times> string) list"

definition ByName :: "Params \<Rightarrow> string \<Rightarrow> string" where
  "ByName ps name = (case map_of ps name of None \<Rightarrow> [] | Some v \<Rightarrow> v)"

type_synonym unmarshal = "string \<Rightarrow> GitHubRepo \<Rightarrow> GitHubRepo \<times> go_error option"

type_synonym route_handler =
  "ResponseWriter \<Rightarrow> Request \<Rightarrow> Params \<Rightarrow> world \<Rightarrow> (ResponseWriter \<times> world) outcome"

definition http_Index :: route_handler where
  "http_Index w r params st =
     (case Context r ''userId'' of
        None \<Rightarrow> Panic ''interface conversion: interface {} is nil, not string''
      | Some uid \<Rightarrow>
          (let service = NewService uid
           in case GetKudos service st of
                (Inl err, st') \<Rightarrow> Return (WriteHeader StatusInternalServerError w, st')
              | (Inr kudos, st') \<Rightarrow>
                  Return (Write (JSON_Kudos kudos) (WriteHeader StatusOK w), st')))"

definition http_Create :: "arch \<Rightarrow> unmarshal \<Rightarrow> route_handler" where
  "http_Create a Unmarshal w r params st =
     (case Context r ''userId'' of
        None \<Rightarrow> Panic ''interface conversion: interface {} is nil, not string''
      | Some uid \<Rightarrow>
          (let service = NewService uid;
               payload = ReqBody r;
               githubRepo = fst (Unmarshal payload GitHubRepo_zero)
           in case CreateKudoFor a service githubRepo st of
                (Inl err, st') \<Rightarrow> Return (WriteHeader StatusInternalServerError w, st')
              | (Inr kudo, st') \<Rightarrow>
                  Return (Write (JSON_Kudo kudo) (WriteHeader StatusCreated w), st')))"

definition http_Delete :: "arch \<Rightarrow> route_handler" where
  "http_Delete a w r params st =
     (case Context r ''userId'' of
        None \<Rightarrow> Panic ''interface conversion: interface {} is nil, not string''
      | Some uid \<Rightarrow>
          (let service = NewService uid;
               repoID = fst (Atoi a (ByName params ''id''));
               githubRepo = GitHubRepo_zero\<lparr>gh_RepoID := to_int64 repoID\<rparr>
           in case RemoveKudo a service githubRepo st of
                (Inl err, st') \<Rightarrow> Return (WriteHeader StatusInternalServerError w, st')
              | (Inr kudo, st') \<Rightarrow> Return (WriteHeader StatusOK w, st')))"

definition http_Update :: "arch \<Rightarrow> unmarshal \<Rightarrow> route_handler" where
  "http_Update a Unmarshal w r params st =
     (case Context r ''userId'' of
        None \<Rightarrow> Panic ''interface conversion: interface {} is nil, not string''
      | Some uid \<Rightarrow>
          (let service = NewService uid;
               payload = ReqBody r;
               githubRepo = fst (Unmarshal payload GitHubRepo_zero)
           in case UpdateKudoWith a service githubRepo st of
                (Inl err, st') \<Rightarrow> Return (WriteHeader StatusInternalServerError w, st')
              | (Inr kudo, st') \<Rightarrow>
                  Return (Write (JSON_Kudo kudo) (WriteHeader StatusOK w), st')))"

section \<open>Concrete inputs\<close>

definition world_empty :: world where
  "world_empty = \<lparr>docs = [], fault = None, logged = []\<rparr>"

definition repo42 :: GitHubRepo where
  "repo42 = \<lparr>gh_RepoID = 42, gh_RepoURL = ''https://x'', gh_RepoName = ''foo/bar'',
     gh_Language = ''Go'', gh_Description = ''d'', gh_Notes = []\<rparr>"

definition kudo_u1_42 :: Kudo where
  "kudo_u1_42 = \<lparr>UserID = ''u1'', RepoID = ''42'', RepoName = ''foo/bar'', RepoURL = ''https://x'',
     Language = ''Go'', Description = ''d'', Notes = []\<rparr>"

definition request_without_Authorization :: Request where
  "request_without_Authorization =
     \<lparr>Method = ''GET'', RequestURI = ''/kudos'', ReqHeader = (\<lambda>k. []), ReqBody = [],
      Context = Map.empty\<rparr>"

definition request_bad_token :: Request where
  "request_bad_token =
     \<lparr>Method = ''GET'', RequestURI = ''/kudos'',
      ReqHeader = (\<lambda>k. if k = ''Authorization'' then [''Bearer bad''] else []), ReqBody = [],
      Context = Map.empty\<rparr>"

definition reject_all :: verifier where
  "reject_all token = Inl (ErrOther ''token is not valid'')"

definition cors_vary :: cors_lib where
  "cors_vary = \<lparr>preflightHeaders = (\<lambda>r. [(''Vary'', ''Origin'')]), preflightStatus = 200,
     actualHeaders = (\<lambda>r. [(''Vary'', ''Origin'')])\<rparr>"

definition world_of :: "Kudo list \<Rightarrow> world" where
  "world_of ds = \<lparr>docs = ds, fault = None, logged = []\<rparr>"

definition kudo_of :: "string \<Rightarrow> string \<Rightarrow> Kudo" where
  "kudo_of uid rid = Kudo_zero\<lparr>UserID := uid, RepoID := rid\<rparr>"

text \<open>A request as a route handler receives it from \<open>OktaAuth\<close>, for the user \<open>uid\<close>.\<close>

definition request_of :: "string \<Rightarrow> string \<Rightarrow> string \<Rightarrow> string \<Rightarrow> Request" where
  "request_of m uri uid payload =
     \<lparr>Method = m, RequestURI = uri, ReqHeader = (\<lambda>k. []), ReqBody = payload,
      Context = [''userId'' \<mapsto> uid]\<rparr>"

text \<open>An unmarshaller that finds every payload malformed and leaves the value untouched.\<close>

definition Unmarshal_fails :: unmarshal where
  "Unmarshal_fails payload v = (v, Some (ErrOther ''invalid character''))"

text \<open>
  A body that is valid JSON with a field of the wrong type, and what
  \<^verbatim>\<open>json.Unmarshal\<close> does with it: the fields that fit are decoded, the other one
  is skipped and reported as the error.
\<close>

definition body_type_error :: string where
  \<open>body_type_error = ''{"id":42,"language":"Go","full_name":7}''\<close>

definition Unmarshal_type_error :: unmarshal where
  "Unmarshal_type_error payload v =
     (if payload = body_type_error
      then (v\<lparr>gh_RepoID := 42, gh_Language := ''Go''\<rparr>,
            Some (ErrOther ''json: cannot unmarshal number into Go struct field GitHubRepo.full_name of type string''))
      else (v, Some (ErrOther ''invalid character'')))"

section \<open>Predicates of the statements\<close>

text \<open>The store holds a record under the key (user, repository).\<close>

definition has_key :: "string \<Rightarrow> string \<Rightarrow> world \<Rightarrow> bool" where
  "has_key uid rid st = list_ex (\<lambda>d. RepoID d = rid \<and> UserID d = uid) (docs st)"

definition key :: "Kudo \<Rightarrow> string \<times> string" where
  "key d = (UserID d, RepoID d)"

text \<open>The invariant of the data model: no two records of the store have the same key.\<close>

definition unique_keys :: "world \<Rightarrow> bool" where
  "unique_keys st = distinct (map key (docs st))"

definition records_of_key :: "string \<Rightarrow> string \<Rightarrow> world \<Rightarrow> Kudo list" where
  "records_of_key uid rid st = filter (\<lambda>d. UserID d = uid \<and> RepoID d = rid) (docs st)"

definition records_of_owner :: "string \<Rightarrow> world \<Rightarrow> Kudo list" where
  "records_of_owner uid st = filter (\<lambda>d. UserID d = uid) (docs st)"

abbreviation ksel :: "Kudo \<Rightarrow> selector" where
  "ksel k \<equiv> [(''repoId'', RepoID k), (''userId'', UserID k)]"

text \<open>The documents after the driver's \<^verbatim>\<open>Upsert\<close> of \<open>k\<close> under its own key.\<close>

definition upsert_docs :: "Kudo \<Rightarrow> Kudo list \<Rightarrow> Kudo list" where
  "upsert_docs k ds = (case replace_first (ksel k) k ds of None \<Rightarrow> ds @ [k] | Some ds' \<Rightarrow> ds')"

text \<open>
  A decimal integer as a string: an optional sign, then one digit or more. These are the
  strings on which \<open>Atoi\<close> reports no syntax error.
\<close>

definition decimal_integer :: "string \<Rightarrow> bool" where
  "decimal_integer s =
     (case s of
        [] \<Rightarrow> False
      | c # cs \<Rightarrow>
          (let ds = (if c = CHR ''+'' \<or> c = CHR ''-'' then cs else s)
           in ds \<noteq> [] \<and> list_all is_digit ds))"

text \<open>
  The part of an identifier after its optional sign, and the number its leading digits
  spell: what the loop of \<open>ParseUint\<close> has read when it meets the first byte that is
  not a digit.
\<close>

definition unsigned_part :: "string \<Rightarrow> string" where
  "unsigned_part s =
     (case s of [] \<Rightarrow> [] | c # cs \<Rightarrow> if c = CHR ''+'' \<or> c = CHR ''-'' then cs else s)"

definition decimal_value :: "string \<Rightarrow> nat" where
  "decimal_value ds = foldl (\<lambda>n c. n * 10 + digit_val c) 0 ds"

text \<open>A record is stored under the key (user, repository).\<close>

definition same_key :: "string \<Rightarrow> string \<Rightarrow> Kudo \<Rightarrow> bool" where
  "same_key uid rid d = (UserID d = uid \<and> RepoID d = rid)"

text \<open>
  Sequences of calls made through one service, for the statements about every sequence
  of operations: each call is run on the state the one before it left.
\<close>

datatype call = ListBookmarks | AddBookmark GitHubRepo | ReplaceBookmark GitHubRepo
  | RemoveBookmark GitHubRepo

fun exec_call :: "arch \<Rightarrow> Service \<Rightarrow> call \<Rightarrow> world \<Rightarrow> world" where
  "exec_call a s ListBookmarks st = snd (GetKudos s st)"
| "exec_call a s (AddBookmark g) st = snd (CreateKudoFor a s g st)"
| "exec_call a s (ReplaceBookmark g) st = snd (UpdateKudoWith a s g st)"
| "exec_call a s (RemoveBookmark g) st = snd (RemoveKudo a s g st)"

fun run_calls :: "arch \<Rightarrow> Service \<Rightarrow> call list \<Rightarrow> world \<Rightarrow> world" where
  "run_calls a s [] st = st"
| "run_calls a s (c # cs) st = run_calls a s cs (exec_call a s c st)"

section \<open>Decimal strings\<close>

lemmas eval_defs = githubRepoToKudo_def Itoa_def digits.simps digit_char_def to_int_def
  NewService_def

lemmas strconv_defs = Atoi_def ParseInt_def ParseUint_def is_digit_def digit_val_def cutoff_def
  maxUint64_def

lemma digit_cases: "d < 10 \<Longrightarrow> d \<in> {0, 1, 2, 3, 4, 5, 6, 7, 8, 9 :: nat}"
  by auto

lemma digit_char_props:
  assumes "d < 10"
  shows "is_digit (digit_char d)" and "digit_val (digit_char d) = d"
    and "digit_char d \<noteq> CHR ''+''" and "digit_char d \<noteq> CHR ''-''"
  using digit_cases [OF assms]
  by (auto simp: is_digit_def digit_val_def digit_char_def)

lemma ParseUint_loop_append:
  "ParseUint_loop m n (xs @ ys) =
     (case ParseUint_loop m n xs of (n', None) \<Rightarrow> ParseUint_loop m n' ys | (n', Some e) \<Rightarrow> (n', Some e))"
  by (induction xs arbitrary: n) (auto simp: Let_def)

lemma ParseUint_loop_one:
  assumes "d < 10" and "n * 10 + d \<le> m" and "m \<le> maxUint64"
  shows "ParseUint_loop m n [digit_char d] = (n * 10 + d, None)"
proof -
  have "n < cutoff"
    using assms by (simp add: cutoff_def maxUint64_def)
  moreover have "(n * 10 + d) mod 2 ^ 64 = n * 10 + d"
    using assms by (simp add: maxUint64_def)
  ultimately show ?thesis
    using assms by (simp add: digit_char_props Let_def)
qed

text \<open>Parsing the digits of a number that fits gives the number back.\<close>

lemma ParseUint_loop_digits:
  "n \<le> m \<Longrightarrow> m \<le> maxUint64 \<Longrightarrow> ParseUint_loop m 0 (digits n) = (n, None)"
proof (induction n rule: digits.induct)
  case (1 n)
  show ?case
  proof (cases "n < 10")
    case True
    then show ?thesis
      using ParseUint_loop_one [of n 0 m] 1(2,3) by (simp add: digits.simps [of n])
  next
    case False
    have "ParseUint_loop m 0 (digits (n div 10)) = (n div 10, None)"
      using 1 False by simp
    moreover have "ParseUint_loop m (n div 10) [digit_char (n mod 10)] = (n, None)"
      using ParseUint_loop_one [of "n mod 10" "n div 10" m] 1(2,3) by simp
    ultimately show ?thesis
      using False by (simp add: digits.simps [of n] ParseUint_loop_append)
  qed
qed

lemma digits_Cons:
  "\<exists>c cs. digits n = c # cs \<and> c \<noteq> CHR ''+'' \<and> c \<noteq> CHR ''-''"
proof (induction n rule: digits.induct)
  case (1 n)
  show ?case
  proof (cases "n < 10")
    case True
    then show ?thesis by (simp add: digits.simps [of n] digit_char_props)
  next
    case False
    then show ?thesis using 1 by (auto simp: digits.simps [of n])
  qed
qed

lemma ParseUint_digits:
  assumes "n < 2 ^ bitSize" and "bitSize \<le> 64"
  shows "ParseUint (digits n) bitSize = (n, None)"
proof -
  have "(2::nat) ^ bitSize \<le> 2 ^ 64"
    using assms(2) by (intro power_increasing) simp_all
  then have "(2::nat) ^ bitSize - 1 \<le> maxUint64"
    by (simp add: maxUint64_def)
  moreover have "n \<le> 2 ^ bitSize - 1"
    using assms(1) by simp
  moreover have "digits n \<noteq> []"
    using digits_Cons [of n] by auto
  ultimately show ?thesis
    by (simp add: ParseUint_def ParseUint_loop_digits)
qed

text \<open>\<^verbatim>\<open>ParseInt(s, 10, 64)\<close> reads back what \<open>Itoa\<close> wrote, for every 64-bit integer.\<close>

lemma ParseInt_Itoa:
  assumes "- (2 ^ 63) \<le> i" and "i < 2 ^ 63"
  shows "ParseInt (Itoa i) 64 = (i, None)"
proof (cases "i < 0")
  case True
  define k where "k = nat (- i)"
  have k: "k \<le> 2 ^ 63" "int k = - i"
    using assms True by (simp_all add: k_def)
  then have "k < 2 ^ 64"
    by simp
  then have "ParseUint (digits k) 64 = (k, None)"
    by (simp add: ParseUint_digits)
  then show ?thesis
    using True k by (simp add: Itoa_def ParseInt_def k_def [symmetric])
next
  case False
  define k where "k = nat i"
  have k: "k < 2 ^ 63" "int k = i"
    using assms False by (simp_all add: k_def)
  then have "k < 2 ^ 64"
    by simp
  then have p: "ParseUint (digits k) 64 = (k, None)"
    by (simp add: ParseUint_digits)
  obtain c cs where c: "digits k = c # cs" "c \<noteq> CHR ''+''" "c \<noteq> CHR ''-''"
    using digits_Cons [of k] by auto
  show ?thesis
    using False k p c by (simp add: Itoa_def ParseInt_def k_def [symmetric])
qed

lemma Itoa_0: "Itoa 0 = ''0''"
  by (simp add: Itoa_def digits.simps digit_char_def)

lemma to_int_0: "to_int a 0 = 0"
  by (simp add: to_int_def)

lemma to_int_Int64: "to_int Int64 x = sint x"
  using sint_ge [of x] sint_lt [of x] by (simp add: to_int_def signed_take_bit_int_eq_self_iff)

lemma Atoi_0: "Atoi a ''0'' = (0, None)"
  by (cases a) (simp_all add: strconv_defs)

text \<open>A syntax error of \<open>Atoi\<close> comes with the value 0, and only for a malformed string.\<close>

lemma Atoi_syntax_zero:
  "snd (Atoi a s) = Some ErrSyntax \<Longrightarrow> fst (Atoi a s) = 0"
  by (auto simp: Atoi_def ParseInt_def Let_def split: list.splits prod.splits if_splits)

lemma ParseUint_loop_digits_no_syntax:
  "list_all is_digit s \<Longrightarrow> snd (ParseUint_loop m n s) \<noteq> Some ErrSyntax"
  by (induction s arbitrary: n) (auto simp: Let_def)

lemma Atoi_syntax_not_decimal:
  "snd (Atoi a s) = Some ErrSyntax \<Longrightarrow> \<not> decimal_integer s"
proof
  assume e: "snd (Atoi a s) = Some ErrSyntax" and d: "decimal_integer s"
  from d obtain c cs where s: "s = c # cs"
    by (cases s) (auto simp: decimal_integer_def)
  define ds where "ds = (if c = CHR ''+'' \<or> c = CHR ''-'' then cs else s)"
  from d have ne: "ds \<noteq> []" and dig: "list_all is_digit ds"
    unfolding decimal_integer_def s ds_def Let_def by (auto split: if_splits)
  have "snd (ParseUint ds (IntSize a)) \<noteq> Some ErrSyntax"
    using ne dig by (simp add: ParseUint_def ParseUint_loop_digits_no_syntax)
  then show False
    using e by (auto simp: Atoi_def ParseInt_def s ds_def Let_def split: prod.splits if_splits)
qed

text \<open>A string that starts with neither a sign nor a digit is a syntax error.\<close>

lemma Atoi_bad_first_char:
  "\<not> is_digit c \<Longrightarrow> c \<noteq> CHR ''+'' \<Longrightarrow> c \<noteq> CHR ''-'' \<Longrightarrow> Atoi a (c # cs) = (0, Some ErrSyntax)"
  by (simp add: Atoi_def ParseInt_def ParseUint_def)

text \<open>
  The loop of \<open>ParseUint\<close> on any string: a range error as soon as the leading digits
  pass \<open>maxVal\<close>, else a syntax error when a byte is not a digit, else the number.
\<close>

lemma decimal_integer_alt:
  "decimal_integer s \<longleftrightarrow> unsigned_part s \<noteq> [] \<and> list_all is_digit (unsigned_part s)"
  by (auto simp: decimal_integer_def unsigned_part_def Let_def split: list.splits)

lemma foldl_digits_ge:
  "n \<le> foldl (\<lambda>n c. n * 10 + digit_val c) n ds"
proof (induction ds arbitrary: n)
  case Nil
  then show ?case by simp
next
  case (Cons c cs)
  have "n \<le> n * 10 + digit_val c" by simp
  also have "\<dots> \<le> foldl (\<lambda>n c. n * 10 + digit_val c) (n * 10 + digit_val c) cs"
    by (rule Cons.IH)
  finally show ?case by simp
qed

lemma is_digit_val: "is_digit c \<Longrightarrow> digit_val c \<le> 9"
  by (auto simp: is_digit_def digit_val_def)

lemma mod_once: "(x :: nat) < 2 * M \<Longrightarrow> x mod M = (if x < M then x else x - M)"
  by (auto simp: mod_if)

lemma ParseUint_loop_general:
  assumes "n \<le> m" and "m \<le> maxUint64"
  shows "ParseUint_loop m n s =
     (let v = foldl (\<lambda>n c. n * 10 + digit_val c) n (takeWhile is_digit s)
      in if v > m then (m, Some ErrRange)
         else if list_all is_digit s then (v, None) else (0, Some ErrSyntax))"
  using assms
proof (induction s arbitrary: n)
  case Nil
  then show ?case by simp
next
  case (Cons c cs)
  show ?case
  proof (cases "is_digit c")
    case False
    then show ?thesis using Cons.prems by simp
  next
    case True
    define x where "x = n * 10 + digit_val c"
    define v where "v = foldl (\<lambda>n c. n * 10 + digit_val c) x (takeWhile is_digit cs)"
    have d: "digit_val c \<le> 9" using True by (rule is_digit_val)
    have vx: "x \<le> v" unfolding v_def by (rule foldl_digits_ge)
    have nx: "n \<le> x" by (simp add: x_def)
    show ?thesis
    proof (cases "n \<ge> cutoff")
      case c1: True
      then have "x > maxUint64"
        by (simp add: x_def cutoff_def maxUint64_def)
      then have "v > m" using vx Cons.prems(2) by simp
      then show ?thesis using True c1 by (simp add: Let_def x_def v_def)
    next
      case c1: False
      then have xb: "x < 2 * 2 ^ 64" using d
        by (simp add: x_def cutoff_def maxUint64_def)
      have md: "x mod 2 ^ 64 = (if x < 2 ^ 64 then x else x - 2 ^ 64)"
        using xb by (rule mod_once)
      show ?thesis
      proof (cases "x < 2 ^ 64")
        case wrap: False
        then have "x mod 2 ^ 64 < n"
          using c1 d md by (simp add: x_def cutoff_def maxUint64_def)
        moreover have "v > m" using wrap vx Cons.prems(2) by (simp add: maxUint64_def)
        ultimately show ?thesis
          using True c1 by (simp add: Let_def x_def [symmetric] v_def [symmetric])
      next
        case nowrap: True
        then have x1: "x mod 2 ^ 64 = x" by simp
        show ?thesis
        proof (cases "x > m")
          case True
          then have "v > m" using vx by simp
          then show ?thesis
            using \<open>is_digit c\<close> c1 True x1
            by (simp add: Let_def x_def [symmetric] v_def [symmetric])
        next
          case False
          then have "x \<le> m" by simp
          from Cons.IH [OF this Cons.prems(2)]
          show ?thesis
            using \<open>is_digit c\<close> c1 False x1 nx
            by (simp add: Let_def x_def [symmetric] v_def [symmetric])
        qed
      qed
    qed
  qed
qed

text \<open>
  \<open>Atoi\<close> on a string that is not a decimal integer: a syntax error with 0 while the
  leading digits stay below \<open>2 ^ IntSize\<close>, else a range error with the smallest
  \<^verbatim>\<open>int\<close> after a minus sign and the largest otherwise.
\<close>

lemma Atoi_malformed:
  assumes "\<not> decimal_integer s"
  shows "Atoi a s =
     (if decimal_value (takeWhile is_digit (unsigned_part s)) < 2 ^ IntSize a
      then (0, Some ErrSyntax)
      else (if take 1 s = ''-'' then - (2 ^ (IntSize a - 1)) else 2 ^ (IntSize a - 1) - 1,
            Some ErrRange))"
proof (cases "unsigned_part s = []")
  case True
  then show ?thesis
    by (auto simp: Atoi_def ParseInt_def ParseUint_def unsigned_part_def decimal_value_def
        split: list.splits if_splits)
next
  case False
  define u where "u = unsigned_part s"
  define m :: nat where "m = 2 ^ IntSize a - 1"
  have nd: "\<not> list_all is_digit u"
    using assms False by (simp add: decimal_integer_alt u_def)
  have m: "m \<le> maxUint64"
    by (cases a) (simp_all add: m_def maxUint64_def)
  have pu: "ParseUint u (IntSize a) =
      (if decimal_value (takeWhile is_digit u) > m then (m, Some ErrRange) else (0, Some ErrSyntax))"
  proof -
    have "ParseUint u (IntSize a) = ParseUint_loop m 0 u"
      using False unfolding ParseUint_def m_def u_def by simp
    then show ?thesis
      using nd ParseUint_loop_general [of 0 m u] m
      by (simp add: decimal_value_def Let_def)
  qed
  obtain c cs where s: "s = c # cs"
    using False by (cases s) (auto simp: unsigned_part_def)
  have lt: "decimal_value (takeWhile is_digit u) < 2 ^ IntSize a \<longleftrightarrow>
      \<not> decimal_value (takeWhile is_digit u) > m"
    by (cases a) (auto simp: m_def)
  show ?thesis
    using pu lt
    by (cases a)
      (auto simp: Atoi_def ParseInt_def s u_def unsigned_part_def m_def Let_def split: if_splits)
qed

lemma to_int_to_int64:
  "- (2 ^ (IntSize a - 1)) \<le> n \<Longrightarrow> n < 2 ^ (IntSize a - 1) \<Longrightarrow> to_int a (to_int64 n) = n"
  by (cases a) (simp_all add: to_int_def to_int64_def signed_take_bit_int_eq_self sint_sbintrunc')

section \<open>The mapping of the repository identifier\<close>

text \<open>
  Where \<^verbatim>\<open>int\<close> is 64 bits wide the mapping loses nothing: the identifier is read
  back from the stored string, and so two identifiers with the same string are the same.
\<close>

lemma githubRepoToKudo_Int64_recover:
  "ParseInt (RepoID (githubRepoToKudo Int64 s g)) 64 = (sint (gh_RepoID g), None)"
  using sint_ge [of "gh_RepoID g"] sint_lt [of "gh_RepoID g"]
  by (simp add: githubRepoToKudo_def to_int_Int64 ParseInt_Itoa)

lemma githubRepoToKudo_Int64_inj:
  assumes "RepoID (githubRepoToKudo Int64 s g) = RepoID (githubRepoToKudo Int64 s' g')"
  shows "gh_RepoID g = gh_RepoID g'"
proof -
  have "sint (gh_RepoID g) = sint (gh_RepoID g')"
    using githubRepoToKudo_Int64_recover [of s g] githubRepoToKudo_Int64_recover [of s' g'] assms
    by simp
  then show ?thesis
    by (rule signed_word_eqI)
qed

text \<open>
  Claim C1, at a failing input. The identifier is declared \<^verbatim>\<open>int64\<close>, and
  \<open>githubRepoToKudo\<close> narrows it to \<^verbatim>\<open>int\<close> before it formats it. Where
  \<^verbatim>\<open>int\<close> is 32 bits wide the identifier \<open>2 ^ 32\<close> is stored as the string of the
  identifier 0: two identifiers, one string.
\<close>

theorem githubRepoToKudo_Int32_collision:
  "RepoID (githubRepoToKudo Int32 s (g\<lparr>gh_RepoID := 4294967296\<rparr>)) = ''0'' \<and>
   RepoID (githubRepoToKudo Int32 s (g\<lparr>gh_RepoID := 0\<rparr>)) = ''0''"
  by (simp add: githubRepoToKudo_def to_int_def Itoa_def digits.simps digit_char_def)

lemma githubRepoToKudo_zero:
  "githubRepoToKudo a (NewService uid) GitHubRepo_zero = kudo_of uid ''0''"
  by (simp add: githubRepoToKudo_def GitHubRepo_zero_def kudo_of_def Kudo_zero_def Itoa_0
      to_int_0 NewService_def)

lemma GitHubRepo_zero_id: "GitHubRepo_zero\<lparr>gh_RepoID := to_int64 0\<rparr> = GitHubRepo_zero"
  by (simp add: GitHubRepo_zero_def to_int64_def)

section \<open>Selectors and the documents they match\<close>

lemma matches_key [simp]:
  "matches [(''repoId'', rid), (''userId'', uid)] d \<longleftrightarrow> RepoID d = rid \<and> UserID d = uid"
  by (simp add: matches_def bson_field_def)

lemma matches_owner [simp]:
  "matches [(''userId'', uid)] d \<longleftrightarrow> UserID d = uid"
  by (simp add: matches_def bson_field_def)

lemma remove_first_absent:
  "\<not> list_ex (matches sel) ds \<Longrightarrow> remove_first sel ds = None"
  by (induction ds) auto

lemma replace_first_None_iff:
  "replace_first (ksel k) k ds = None \<longleftrightarrow> key k \<notin> key ` set ds"
  by (induction ds) (auto simp: key_def)

lemma replace_first_keys:
  "replace_first (ksel k) k ds = Some ds' \<Longrightarrow> map key ds' = map key ds"
  by (induction ds arbitrary: ds') (auto simp: key_def split: if_splits)

lemma filter_key_absent:
  "key k \<notin> key ` set ds \<Longrightarrow> filter (\<lambda>d. key d = key k) ds = []"
  by (induction ds) auto

lemma replace_first_filter_same:
  "replace_first (ksel k) k ds = Some ds' \<Longrightarrow> distinct (map key ds) \<Longrightarrow>
   filter (\<lambda>d. key d = key k) ds' = [k]"
proof (induction ds arbitrary: ds')
  case Nil
  then show ?case by simp
next
  case (Cons d ds)
  show ?case
  proof (cases "key d = key k")
    case True
    then have "ds' = k # ds"
      using Cons.prems(1) by (simp add: key_def)
    moreover have "key k \<notin> key ` set ds"
      using Cons.prems(2) True by simp
    then have "filter (\<lambda>d. key d = key k) ds = []"
      by (simp add: filter_key_absent)
    ultimately show ?thesis by simp
  next
    case False
    then obtain r where r: "replace_first (ksel k) k ds = Some r" and ds': "ds' = d # r"
      using Cons.prems(1) by (auto simp: key_def)
    have "filter (\<lambda>d. key d = key k) r = [k]"
      using Cons.IH [OF r] Cons.prems(2) by simp
    then show ?thesis
      using False ds' by simp
  qed
qed

lemma replace_first_filter_other:
  "replace_first (ksel k) k ds = Some ds' \<Longrightarrow> \<not> P k \<Longrightarrow> (\<And>d. key d = key k \<Longrightarrow> \<not> P d) \<Longrightarrow>
   filter P ds' = filter P ds"
  by (induction ds arbitrary: ds') (auto simp: key_def split: if_splits)

lemma remove_first_filter_other:
  "remove_first (ksel k) ds = Some ds' \<Longrightarrow> (\<And>d. key d = key k \<Longrightarrow> \<not> P d) \<Longrightarrow>
   filter P ds' = filter P ds"
  by (induction ds arbitrary: ds') (auto simp: key_def split: if_splits)

text \<open>An upsert keeps the keys distinct and leaves exactly its record under its key.\<close>

lemma upsert_docs_unique:
  "distinct (map key ds) \<Longrightarrow> distinct (map key (upsert_docs k ds))"
  by (auto simp: upsert_docs_def replace_first_None_iff replace_first_keys split: option.splits)

lemma upsert_docs_filter_same:
  "distinct (map key ds) \<Longrightarrow> filter (\<lambda>d. key d = key k) (upsert_docs k ds) = [k]"
  by (simp add: upsert_docs_def replace_first_None_iff replace_first_filter_same
      filter_key_absent split: option.splits)

lemma upsert_docs_length:
  "key k \<in> key ` set ds \<Longrightarrow> length (upsert_docs k ds) = length ds"
  using replace_first_keys [of k ds, THEN arg_cong, of _ length]
  by (auto simp: upsert_docs_def replace_first_None_iff split: option.splits)

lemma upsert_docs_key_in:
  "key k \<in> key ` set (upsert_docs k ds)"
proof (cases "replace_first (ksel k) k ds")
  case None
  then show ?thesis by (simp add: upsert_docs_def)
next
  case (Some ds')
  then have "key k \<in> key ` set ds"
    using replace_first_None_iff [of k ds] by auto
  moreover have "map key ds' = map key ds"
    using Some by (rule replace_first_keys)
  then have "key ` set ds' = key ` set ds"
    by (metis list.set_map)
  ultimately show ?thesis
    using Some by (simp add: upsert_docs_def)
qed

lemma upsert_docs_other_owner:
  "UserID k \<noteq> B \<Longrightarrow> filter (\<lambda>d. UserID d = B) (upsert_docs k ds) = filter (\<lambda>d. UserID d = B) ds"
  using replace_first_filter_other [of k ds _ "\<lambda>d. UserID d = B"]
  by (auto simp: upsert_docs_def key_def split: option.splits)

text \<open>
  What the driver's replace and remove of the first match do to the records under the
  key and to the others.
\<close>

lemma matches_same_key: "matches (ksel k) d \<longleftrightarrow> same_key (UserID k) (RepoID k) d"
  by (auto simp: same_key_def)

lemma same_key_eq: "same_key uid rid = (\<lambda>d. UserID d = uid \<and> RepoID d = rid)"
  by (rule ext) (simp add: same_key_def)

lemma records_of_key_same_key: "records_of_key uid rid st = filter (same_key uid rid) (docs st)"
  by (simp add: records_of_key_def same_key_eq)

lemma has_key_same_key: "has_key uid rid st = list_ex (same_key uid rid) (docs st)"
  by (auto simp: has_key_def same_key_def list_ex_iff)

lemma same_key_self [simp]: "same_key (UserID k) (RepoID k) k"
  by (simp add: same_key_def)

lemma replace_first_same_key:
  "replace_first (ksel k) k ds = Some ds' \<Longrightarrow>
   filter (same_key (UserID k) (RepoID k)) ds' = k # tl (filter (same_key (UserID k) (RepoID k)) ds)"
  by (induction ds arbitrary: ds') (auto simp: matches_same_key simp del: matches_key split: if_splits)

lemma replace_first_other_keys:
  "replace_first (ksel k) k ds = Some ds' \<Longrightarrow>
   filter (\<lambda>d. \<not> same_key (UserID k) (RepoID k) d) ds' =
     filter (\<lambda>d. \<not> same_key (UserID k) (RepoID k) d) ds"
  by (induction ds arbitrary: ds') (auto simp: matches_same_key simp del: matches_key split: if_splits)

lemma replace_first_None_filter:
  "replace_first (ksel k) k ds = None \<Longrightarrow> filter (same_key (UserID k) (RepoID k)) ds = []"
  by (induction ds) (auto simp: matches_same_key simp del: matches_key split: if_splits)

lemma upsert_docs_same_key:
  "filter (same_key (UserID k) (RepoID k)) (upsert_docs k ds) =
     k # tl (filter (same_key (UserID k) (RepoID k)) ds)"
  by (simp add: upsert_docs_def replace_first_same_key replace_first_None_filter
      split: option.splits)

lemma upsert_docs_other_keys:
  "filter (\<lambda>d. \<not> same_key (UserID k) (RepoID k) d) (upsert_docs k ds) =
     filter (\<lambda>d. \<not> same_key (UserID k) (RepoID k) d) ds"
  by (simp add: upsert_docs_def replace_first_other_keys split: option.splits)

lemma remove_first_same_key:
  "remove_first (ksel k) ds = Some ds' \<Longrightarrow>
   filter (same_key (UserID k) (RepoID k)) ds' = tl (filter (same_key (UserID k) (RepoID k)) ds)"
  by (induction ds arbitrary: ds') (auto simp: matches_same_key simp del: matches_key split: if_splits)

lemma remove_first_other_keys:
  "remove_first (ksel k) ds = Some ds' \<Longrightarrow>
   filter (\<lambda>d. \<not> same_key (UserID k) (RepoID k) d) ds' =
     filter (\<lambda>d. \<not> same_key (UserID k) (RepoID k) d) ds"
  by (induction ds arbitrary: ds') (auto simp: matches_same_key simp del: matches_key split: if_splits)

lemma remove_first_None_iff:
  "remove_first (ksel k) ds = None \<longleftrightarrow> \<not> list_ex (same_key (UserID k) (RepoID k)) ds"
  by (induction ds) (auto simp: matches_same_key simp del: matches_key)

lemma MongoRepository_Delete_outcome:
  "(case MongoRepository_Delete k st of
      (err, st') \<Rightarrow>
        fault st' = fault st \<and> logged st' = logged st \<and>
        filter (\<lambda>d. \<not> same_key (UserID k) (RepoID k) d) (docs st') =
          filter (\<lambda>d. \<not> same_key (UserID k) (RepoID k) d) (docs st) \<and>
        (if fault st = None \<and> has_key (UserID k) (RepoID k) st
         then err = None \<and>
              records_of_key (UserID k) (RepoID k) st' = tl (records_of_key (UserID k) (RepoID k) st)
         else err \<noteq> None \<and> st' = st))"
proof (cases "fault st")
  case (Some e)
  then show ?thesis
    by (simp add: MongoRepository_Delete_def coll_Remove_def)
next
  case None
  show ?thesis
  proof (cases "remove_first (ksel k) (docs st)")
    case n: None
    then have "\<not> has_key (UserID k) (RepoID k) st"
      by (simp add: remove_first_None_iff has_key_same_key)
    then show ?thesis
      using None n by (simp add: MongoRepository_Delete_def coll_Remove_def)
  next
    case (Some ds')
    then have "has_key (UserID k) (RepoID k) st"
      using remove_first_None_iff [of k "docs st"] by (simp add: has_key_same_key)
    then show ?thesis
      using None Some remove_first_same_key [OF Some] remove_first_other_keys [OF Some]
      by (simp add: MongoRepository_Delete_def coll_Remove_def records_of_key_same_key)
  qed
qed

section \<open>What the service's operations return\<close>

lemma CreateKudoFor_result:
  "CreateKudoFor a s g st =
     (case fault st of
        Some e \<Rightarrow> (Inl e, st)
      | None \<Rightarrow> (Inr (githubRepoToKudo a s g),
                 st\<lparr>docs := upsert_docs (githubRepoToKudo a s g) (docs st)\<rparr>))"
  by (simp add: CreateKudoFor_def Let_def coll_Upsert_def upsert_docs_def split: option.splits)

lemma UpdateKudoWith_result:
  "UpdateKudoWith a s g st =
     (case fault st of
        Some e \<Rightarrow> (Inl e, st)
      | None \<Rightarrow> (Inr (githubRepoToKudo a s g),
                 st\<lparr>docs := upsert_docs (githubRepoToKudo a s g) (docs st)\<rparr>))"
  by (simp add: UpdateKudoWith_def Let_def coll_Upsert_def upsert_docs_def split: option.splits)

lemma GetKudos_result:
  "GetKudos s st =
     (case fault st of
        Some e \<Rightarrow> (Inl e, logger_Printf_error e st)
      | None \<Rightarrow> (Inr (records_of_owner (userId s) st), st))"
  by (simp add: GetKudos_def MongoRepository_FindAll_def coll_Find_All_def records_of_owner_def
      split: option.splits cong: filter_cong)

lemma RemoveKudo_other_owner:
  "B \<noteq> userId s \<Longrightarrow>
   records_of_owner B (snd (RemoveKudo a s g st)) = records_of_owner B st"
  using remove_first_filter_other [of "githubRepoToKudo a s g" "docs st" _ "\<lambda>d. UserID d = B"]
  by (auto simp: RemoveKudo_def MongoRepository_Delete_def coll_Remove_def Let_def
      records_of_owner_def key_def githubRepoToKudo_def split: option.splits)

text \<open>
  The scenario of the specification: \<open>u1\<close> posts repository 42 to the empty store, lists
  its bookmarks and removes the bookmark again.
\<close>

lemma scenario_u1_42:
  "CreateKudoFor Int64 (NewService ''u1'') repo42 world_empty = (Inr kudo_u1_42, world_of [kudo_u1_42]) \<and>
   GetKudos (NewService ''u1'') (world_of [kudo_u1_42]) = (Inr [kudo_u1_42], world_of [kudo_u1_42]) \<and>
   RemoveKudo Int64 (NewService ''u1'') repo42 (world_of [kudo_u1_42]) = (Inr kudo_u1_42, world_empty)"
  by (simp add: CreateKudoFor_result GetKudos_result RemoveKudo_def MongoRepository_Delete_def
      coll_Remove_def records_of_owner_def upsert_docs_def world_empty_def world_of_def eval_defs
      repo42_def kudo_u1_42_def)

section \<open>The record store\<close>

text \<open>
  Claim C3, as the code has it. Deleting a record whose key (user, repository) is not in
  the store leaves the store as it was, but it does not succeed: \<open>Delete\<close> returns the
  error of the driver's \<^verbatim>\<open>Remove\<close>, which is \<open>ErrNotFound\<close> when no document
  matches (or the error of the connection), and \<open>RemoveKudo\<close> returns that error in
  place of the record.
\<close>

theorem Delete_absent_key:
  assumes "\<not> has_key (UserID kudo) (RepoID kudo) st"
  shows "MongoRepository_Delete kudo st =
           (Some (case fault st of None \<Rightarrow> ErrNotFound | Some e \<Rightarrow> e), st) \<and>
         (\<forall>a s g. githubRepoToKudo a s g = kudo \<longrightarrow>
           RemoveKudo a s g st = (Inl (case fault st of None \<Rightarrow> ErrNotFound | Some e \<Rightarrow> e), st))"
proof -
  have "\<not> list_ex (matches (ksel kudo)) (docs st)"
    using assms by (simp add: has_key_def list_ex_iff)
  then have r: "remove_first (ksel kudo) (docs st) = None"
    by (rule remove_first_absent)
  have d: "MongoRepository_Delete kudo st =
           (Some (case fault st of None \<Rightarrow> ErrNotFound | Some e \<Rightarrow> e), st)"
    by (simp add: MongoRepository_Delete_def coll_Remove_def r split: option.split)
  then show ?thesis
    by (auto simp: RemoveKudo_def)
qed

text \<open>
  The theorem at the empty store: user \<open>u1\<close> has no record of repository 42, and
  removing it is answered with \<open>ErrNotFound\<close>.
\<close>

theorem Delete_absent_key_witness:
  "\<not> has_key ''u1'' ''42'' world_empty \<and>
   RemoveKudo Int64 (NewService ''u1'') repo42 world_empty = (Inl ErrNotFound, world_empty)"
  using Delete_absent_key [of "githubRepoToKudo Int64 (NewService ''u1'') repo42" world_empty]
  by (simp add: has_key_def world_empty_def eval_defs repo42_def)

text \<open>
  Claim C3 as stated fails: on the empty store, with a working connection, the delete of
  a bookmark that was never created returns an error.
\<close>

theorem Delete_absent_key_counterexample:
  "RemoveKudo Int64 (NewService ''u1'') repo42 world_empty = (Inl ErrNotFound, world_empty) \<and>
   MongoRepository_Delete (githubRepoToKudo Int64 (NewService ''u1'') repo42) world_empty
     = (Some ErrNotFound, world_empty)"
  by (simp add: RemoveKudo_def MongoRepository_Delete_def coll_Remove_def world_empty_def)

text \<open>
  Claim C8, at a failing input. The store holds the record of user \<open>u1\<close> for
  repository 42. \<open>Find\<close> takes no user identifier and selects on the empty one, so it
  answers \<open>ErrNotFound\<close> (and logs it).
\<close>

theorem Find_misses_owned_record:
  "MongoRepository_Find ''42'' (world_of [kudo_u1_42]) =
     (Inl ErrNotFound,
      \<lparr>docs = [kudo_u1_42], fault = None, logged = [''[mongoDB] error: not found'']\<rparr>)"
  by (simp add: MongoRepository_Find_def coll_Find_One_def Kudo_zero_def kudo_u1_42_def
      logger_Printf_error_def world_of_def)

text \<open>Whatever \<open>Find\<close> returns is a record of the empty user identifier.\<close>

lemma Find_only_ownerless:
  "MongoRepository_Find repoID st = (Inr k, st') \<Longrightarrow> UserID k = []"
  by (auto simp: MongoRepository_Find_def coll_Find_One_def Kudo_zero_def find_Some_iff
      split: option.splits sum.splits)

section \<open>The service\<close>

text \<open>
  Claim C4. In a store whose keys are distinct, two calls of \<open>CreateKudoFor\<close> that
  succeed, for the same user and the same repository identifier, leave exactly one record
  under the key (user, repository): the record mapped from the second call's input. The
  second call inserts nothing (the store is no longer than after the first), and the keys
  stay distinct.
\<close>

theorem CreateKudoFor_twice:
  assumes "unique_keys st"
    and "CreateKudoFor a s g1 st = (Inr k1, st1)"
    and "CreateKudoFor a s g2 st1 = (Inr k2, st2)"
    and "gh_RepoID g2 = gh_RepoID g1"
  shows "records_of_key (userId s) (RepoID k1) st2 = [k2] \<and> k2 = githubRepoToKudo a s g2 \<and>
         length (docs st2) = length (docs st1) \<and> unique_keys st2"
proof -
  from assms(2) have k1: "k1 = githubRepoToKudo a s g1"
    and st1: "st1 = st\<lparr>docs := upsert_docs k1 (docs st)\<rparr>"
    by (auto simp: CreateKudoFor_result split: option.splits)
  from assms(3) have k2: "k2 = githubRepoToKudo a s g2"
    and st2: "st2 = st1\<lparr>docs := upsert_docs k2 (docs st1)\<rparr>"
    by (auto simp: CreateKudoFor_result split: option.splits)
  have u1: "distinct (map key (docs st1))"
    using assms(1) by (simp add: st1 unique_keys_def upsert_docs_unique)
  have same: "UserID k2 = userId s" "RepoID k2 = RepoID k1"
    using assms(4) by (simp_all add: k1 k2 githubRepoToKudo_def)
  have "key k2 = key k1"
    using assms(4) by (simp add: k1 k2 key_def githubRepoToKudo_def)
  then have "key k2 \<in> key ` set (docs st1)"
    using upsert_docs_key_in [of k1 "docs st"] by (simp add: st1)
  then have len: "length (docs st2) = length (docs st1)"
    by (simp add: st2 upsert_docs_length)
  have "filter (\<lambda>d. key d = key k2) (docs st2) = [k2]"
    using u1 by (simp add: st2 upsert_docs_filter_same)
  then have "records_of_key (userId s) (RepoID k1) st2 = [k2]"
    by (simp add: records_of_key_def same key_def)
  moreover have "unique_keys st2"
    using u1 by (simp add: st2 unique_keys_def upsert_docs_unique)
  ultimately show ?thesis
    using k2 len by simp
qed

text \<open>
  The theorem at the empty store: \<open>u1\<close> bookmarks repository 42, then bookmarks it
  again with a note; the store holds the one record, with the note.
\<close>

theorem CreateKudoFor_twice_witness:
  "unique_keys world_empty \<and>
   CreateKudoFor Int64 (NewService ''u1'') repo42 world_empty
     = (Inr kudo_u1_42, world_of [kudo_u1_42]) \<and>
   CreateKudoFor Int64 (NewService ''u1'') (repo42\<lparr>gh_Notes := ''again''\<rparr>) (world_of [kudo_u1_42])
     = (Inr (kudo_u1_42\<lparr>Notes := ''again''\<rparr>), world_of [kudo_u1_42\<lparr>Notes := ''again''\<rparr>]) \<and>
   records_of_key ''u1'' ''42'' (world_of [kudo_u1_42\<lparr>Notes := ''again''\<rparr>])
     = [kudo_u1_42\<lparr>Notes := ''again''\<rparr>]"
proof -
  have p1: "unique_keys world_empty"
    by (simp add: unique_keys_def world_empty_def)
  have p2: "CreateKudoFor Int64 (NewService ''u1'') repo42 world_empty
     = (Inr kudo_u1_42, world_of [kudo_u1_42])"
    by (simp add: CreateKudoFor_result upsert_docs_def world_empty_def world_of_def eval_defs
        repo42_def kudo_u1_42_def)
  have p3: "CreateKudoFor Int64 (NewService ''u1'') (repo42\<lparr>gh_Notes := ''again''\<rparr>)
       (world_of [kudo_u1_42])
     = (Inr (kudo_u1_42\<lparr>Notes := ''again''\<rparr>), world_of [kudo_u1_42\<lparr>Notes := ''again''\<rparr>])"
    by (simp add: CreateKudoFor_result upsert_docs_def world_of_def eval_defs repo42_def
        kudo_u1_42_def)
  have p4: "gh_RepoID (repo42\<lparr>gh_Notes := ''again''\<rparr>) = gh_RepoID repo42"
    by simp
  have "records_of_key (userId (NewService ''u1'')) (RepoID kudo_u1_42)
      (world_of [kudo_u1_42\<lparr>Notes := ''again''\<rparr>]) = [kudo_u1_42\<lparr>Notes := ''again''\<rparr>]"
    using CreateKudoFor_twice [OF p1 p2 p3 p4] by (rule conjunct1)
  then show ?thesis
    using p1 p2 p3 by (simp add: NewService_def kudo_u1_42_def)
qed

text \<open>The operations keep the keys distinct, so the invariant holds from the empty store on.\<close>

lemma run_calls_unique_keys:
  "unique_keys st \<Longrightarrow> unique_keys (run_calls a s cs st)"
proof (induction cs arbitrary: st)
  case Nil
  then show ?case by simp
next
  case (Cons c cs)
  have "unique_keys (exec_call a s c st)"
  proof (cases c)
    case ListBookmarks
    then show ?thesis
      using Cons.prems
      by (simp add: GetKudos_result unique_keys_def logger_Printf_error_def split: option.splits)
  next
    case (AddBookmark g)
    then show ?thesis
      using Cons.prems
      by (simp add: CreateKudoFor_result unique_keys_def upsert_docs_unique split: option.splits)
  next
    case (ReplaceBookmark g)
    then show ?thesis
      using Cons.prems
      by (simp add: UpdateKudoWith_result unique_keys_def upsert_docs_unique split: option.splits)
  next
    case (RemoveBookmark g)
    have sub: "set ds' \<subseteq> set ds"
      if "remove_first sel ds = Some ds'" for sel ds ds'
      using that by (induction ds arbitrary: ds') (auto split: if_splits)
    have "distinct (map key ds')"
      if "remove_first sel ds = Some ds'" and "distinct (map key ds)" for sel ds ds'
      using that sub by (induction ds arbitrary: ds') (fastforce split: if_splits)+
    then show ?thesis
      using Cons.prems RemoveBookmark
      by (auto simp: RemoveKudo_def MongoRepository_Delete_def coll_Remove_def Let_def
          unique_keys_def split: option.splits)
  qed
  then show ?case
    using Cons.IH by simp
qed

text \<open>
  Claim C5. For a service bound to a user and any other user \<open>B\<close>: whatever sequence of
  calls is made through the service, the records of \<open>B\<close> in the store are afterwards
  what they were before; \<open>GetKudos\<close> returns the records of the service's own user and
  none of \<open>B\<close>; and every record the service maps, to upsert or to delete it, carries
  the service's user.
\<close>

theorem owner_isolation:
  assumes "B \<noteq> userId s"
  shows "records_of_owner B (run_calls a s cs st) = records_of_owner B st \<and>
         (case fst (GetKudos s st) of
            Inl err \<Rightarrow> True
          | Inr ks \<Rightarrow> ks = records_of_owner (userId s) st \<and> \<not> list_ex (\<lambda>d. UserID d = B) ks) \<and>
         UserID (githubRepoToKudo a s g) = userId s"
proof -
  have step: "records_of_owner B (exec_call a s c st') = records_of_owner B st'" for c st'
  proof (cases c)
    case ListBookmarks
    then show ?thesis
      by (simp add: GetKudos_result records_of_owner_def logger_Printf_error_def
          split: option.splits)
  next
    case (AddBookmark g')
    have "UserID (githubRepoToKudo a s g') \<noteq> B"
      using assms by (simp add: githubRepoToKudo_def)
    then show ?thesis
      using AddBookmark
      by (simp add: CreateKudoFor_result records_of_owner_def upsert_docs_other_owner
          split: option.splits)
  next
    case (ReplaceBookmark g')
    have "UserID (githubRepoToKudo a s g') \<noteq> B"
      using assms by (simp add: githubRepoToKudo_def)
    then show ?thesis
      using ReplaceBookmark
      by (simp add: UpdateKudoWith_result records_of_owner_def upsert_docs_other_owner
          split: option.splits)
  next
    case (RemoveBookmark g')
    then show ?thesis
      using assms by (simp add: RemoveKudo_other_owner)
  qed
  have run: "records_of_owner B (run_calls a s cs st) = records_of_owner B st"
    by (induction cs arbitrary: st) (simp_all add: step)
  have "\<not> list_ex (\<lambda>d. UserID d = B) (records_of_owner (userId s) st)"
    using assms by (auto simp: records_of_owner_def list_ex_iff)
  then show ?thesis
    using run by (simp add: GetKudos_result githubRepoToKudo_def split: option.splits)
qed

text \<open>
  The theorem for the users \<open>u1\<close> and \<open>u2\<close>: the store holds a record of each for
  repository 42; \<open>u1\<close> removes its bookmark, lists, and bookmarks the repository again;
  the record of \<open>u2\<close> is untouched.
\<close>

theorem owner_isolation_witness:
  "''u2'' \<noteq> userId (NewService ''u1'') \<and>
   records_of_owner ''u2''
     (run_calls Int64 (NewService ''u1'') [RemoveBookmark repo42, ListBookmarks, AddBookmark repo42]
        (world_of [kudo_u1_42, kudo_of ''u2'' ''42'']))
     = [kudo_of ''u2'' ''42'']"
proof -
  have h: "''u2'' \<noteq> userId (NewService ''u1'')"
    by (simp add: NewService_def)
  have "records_of_owner ''u2'' (world_of [kudo_u1_42, kudo_of ''u2'' ''42'']) = [kudo_of ''u2'' ''42'']"
    by (simp add: records_of_owner_def world_of_def kudo_u1_42_def kudo_of_def)
  then show ?thesis
    using h owner_isolation [OF h, of Int64
        "[RemoveBookmark repo42, ListBookmarks, AddBookmark repo42]"
        "world_of [kudo_u1_42, kudo_of ''u2'' ''42'']"]
    by simp
qed

text \<open>
  Claim C7. \<open>UpdateKudoWith\<close> (the PUT path) and \<open>CreateKudoFor\<close> (the POST path) are
  the same function of the repository given and the state of the store: the same mapping,
  the same upsert, the same result and the same state afterwards.
\<close>

theorem UpdateKudoWith_eq_CreateKudoFor:
  "UpdateKudoWith a s githubRepo st = CreateKudoFor a s githubRepo st"
  by (simp add: UpdateKudoWith_def CreateKudoFor_def)

section \<open>The authentication gate and the middleware chain\<close>

text \<open>
  Claim C2, at failing inputs. With no \<^verbatim>\<open>Authorization\<close> header the slice of values
  is empty and \<open>validateAccessToken\<close> panics on its first index; with the value
  \<^verbatim>\<open>Bearer\<close> (no space) it panics on the second. \<open>OktaAuth\<close> writes no response
  then: the panic leaves the handler.
\<close>

theorem OktaAuth_panics_without_header:
  "validateAccessToken V [] = Panic ''index out of range [0] with length 0'' \<and>
   validateAccessToken V [''Bearer''] = Panic ''index out of range [1] with length 1'' \<and>
   OktaAuth V h w request_without_Authorization st = Panic ''index out of range [0] with length 0''"
  by (simp add: validateAccessToken_def OktaAuth_def request_without_Authorization_def)

text \<open>The scheme before the space is never looked at: any word does for \<^verbatim>\<open>Bearer\<close>.\<close>

lemma validateAccessToken_ignores_scheme:
  "validateAccessToken V [''Basic tok''] = Return (V ''tok'')"
  by (simp add: validateAccessToken_def)

text \<open>A header with a space in its first value never makes the gate panic on an index.\<close>

lemma validateAccessToken_total_with_space:
  "CHR '' '' \<in> set a0 \<Longrightarrow> \<exists>tok. validateAccessToken V (a0 # rest) = Return (V tok)"
proof -
  have ne: "Split s CHR '' '' \<noteq> []" for s
    by (induction s) (auto split: list.splits)
  have "CHR '' '' \<in> set s \<Longrightarrow> 1 < length (Split s CHR '' '')" for s
    using ne by (induction s) (auto split: list.splits)
  then show "CHR '' '' \<in> set a0 \<Longrightarrow> \<exists>tok. validateAccessToken V (a0 # rest) = Return (V tok)"
    by (auto simp: validateAccessToken_def Let_def)
qed

text \<open>
  Claim C6, at a failing input. A request whose token the verifier rejects is answered by
  \<open>OktaAuth\<close> with the status 403 before \<open>JSONApi\<close>, which is inside it in the chain,
  has set the content type: the headers sent with the 403 have no
  \<^verbatim>\<open>Content-Type: application/json\<close>.
\<close>

theorem forbidden_without_content_type:
  "(case UseMiddlewares reject_all cors_vary h ResponseWriter_new request_bad_token st of
      Panic msg \<Rightarrow> False
    | Return (w, st') \<Rightarrow>
        status_sent w = Some StatusForbidden \<and> header_sent w ''Content-Type'' = None \<and>
        written w = [Bytes ''token is not valid''] \<and> docs st' = docs st)"
  by (simp add: UseMiddlewares_def AccsessLog_def Cors_def OktaAuth_def JSONApi_def
      validateAccessToken_def request_bad_token_def reject_all_def cors_vary_def
      ResponseWriter_new_def add_headers_def Header_Set_def WriteHeader_def Write_def
      status_sent_def header_sent_def StatusForbidden_def Header_Get_def)

text \<open>
  What a route handler answers behind \<open>JSONApi\<close> does carry the header, the status 500
  of a failing store included.
\<close>

lemma JSONApi_Index_content_type:
  assumes "sent w = None"
    and "JSONApi (\<lambda>w r. http_Index w r params) w r st = Return (w', st')"
  shows "header_sent w' ''Content-Type'' = Some ''application/json''"
  using assms
  by (auto simp: JSONApi_def http_Index_def Let_def Header_Set_def WriteHeader_def Write_def
      header_sent_def split: option.splits prod.splits sum.splits)

section \<open>The route handlers\<close>

text \<open>
  Claim C9, as the code has it. When \<^verbatim>\<open>json.Unmarshal\<close> reports an error on the
  body of a POST or a PUT, the handler drops the error and goes on with the value the
  unmarshaller left (\<open>g\<close>). With a working store it answers 201 (POST) or 200 (PUT)
  with the record \<open>k\<close> mapped from that value, writes it as the body, puts it in the
  place of the first record under its key (or adds it when there is none) and leaves
  every other record as it was. With a failing store it answers 500, writes nothing and
  changes nothing. It never answers with a client error. Where the unmarshaller left the
  zero value, \<open>k\<close> is the zero-valued record: the user of the request, the repository
  identifier \<^verbatim>\<open>"0"\<close>, every other field empty.
\<close>

theorem unparsable_body_upserted:
  assumes "Unmarshal (ReqBody r) GitHubRepo_zero = (g, Some err)"
    and "Context r ''userId'' = Some uid"
    and "sent w = None"
    and "k = \<lparr>UserID = uid, RepoID = Itoa (to_int a (gh_RepoID g)), RepoName = gh_RepoName g,
              RepoURL = gh_RepoURL g, Language = gh_Language g, Description = gh_Description g,
              Notes = gh_Notes g\<rparr>"
  shows "(case http_Create a Unmarshal w r params st of
            Panic msg \<Rightarrow> False
          | Return (w', st') \<Rightarrow>
              Header w' = Header w \<and> fault st' = fault st \<and> logged st' = logged st \<and>
              (if fault st = None
               then sent w' = Some (201, Header w) \<and> written w' = written w @ [JSON_Kudo k] \<and>
                    records_of_key uid (RepoID k) st' = k # tl (records_of_key uid (RepoID k) st) \<and>
                    filter (\<lambda>d. \<not> same_key uid (RepoID k) d) (docs st') =
                      filter (\<lambda>d. \<not> same_key uid (RepoID k) d) (docs st)
               else sent w' = Some (500, Header w) \<and> written w' = written w \<and> st' = st)) \<and>
         (case http_Update a Unmarshal w r params st of
            Panic msg \<Rightarrow> False
          | Return (w', st') \<Rightarrow>
              Header w' = Header w \<and> fault st' = fault st \<and> logged st' = logged st \<and>
              (if fault st = None
               then sent w' = Some (200, Header w) \<and> written w' = written w @ [JSON_Kudo k] \<and>
                    records_of_key uid (RepoID k) st' = k # tl (records_of_key uid (RepoID k) st) \<and>
                    filter (\<lambda>d. \<not> same_key uid (RepoID k) d) (docs st') =
                      filter (\<lambda>d. \<not> same_key uid (RepoID k) d) (docs st)
               else sent w' = Some (500, Header w) \<and> written w' = written w \<and> st' = st)) \<and>
         (g = GitHubRepo_zero \<longrightarrow>
            k = \<lparr>UserID = uid, RepoID = ''0'', RepoName = [], RepoURL = [], Language = [],
                 Description = [], Notes = []\<rparr>)"
proof -
  have k: "k = githubRepoToKudo a (NewService uid) g"
    by (simp add: assms(4) githubRepoToKudo_def NewService_def)
  have ku: "UserID k = uid"
    by (simp add: assms(4))
  have g: "fst (Unmarshal (ReqBody r) GitHubRepo_zero) = g"
    by (simp add: assms(1))
  have c: "case http_Create a Unmarshal w r params st of
            Panic msg \<Rightarrow> False
          | Return (w', st') \<Rightarrow>
              Header w' = Header w \<and> fault st' = fault st \<and> logged st' = logged st \<and>
              (if fault st = None
               then sent w' = Some (201, Header w) \<and> written w' = written w @ [JSON_Kudo k] \<and>
                    records_of_key uid (RepoID k) st' = k # tl (records_of_key uid (RepoID k) st) \<and>
                    filter (\<lambda>d. \<not> same_key uid (RepoID k) d) (docs st') =
                      filter (\<lambda>d. \<not> same_key uid (RepoID k) d) (docs st)
               else sent w' = Some (500, Header w) \<and> written w' = written w \<and> st' = st)"
    using assms(2,3)
    by (cases "fault st")
      (simp_all add: http_Create_def Let_def g k [symmetric] CreateKudoFor_result WriteHeader_def
        Write_def StatusCreated_def StatusInternalServerError_def records_of_key_same_key
        upsert_docs_same_key [of k, unfolded ku] upsert_docs_other_keys [of k, unfolded ku])
  have u: "case http_Update a Unmarshal w r params st of
            Panic msg \<Rightarrow> False
          | Return (w', st') \<Rightarrow>
              Header w' = Header w \<and> fault st' = fault st \<and> logged st' = logged st \<and>
              (if fault st = None
               then sent w' = Some (200, Header w) \<and> written w' = written w @ [JSON_Kudo k] \<and>
                    records_of_key uid (RepoID k) st' = k # tl (records_of_key uid (RepoID k) st) \<and>
                    filter (\<lambda>d. \<not> same_key uid (RepoID k) d) (docs st') =
                      filter (\<lambda>d. \<not> same_key uid (RepoID k) d) (docs st)
               else sent w' = Some (500, Header w) \<and> written w' = written w \<and> st' = st)"
    using assms(2,3)
    by (cases "fault st")
      (simp_all add: http_Update_def Let_def g k [symmetric] UpdateKudoWith_result WriteHeader_def
        Write_def StatusOK_def StatusInternalServerError_def records_of_key_same_key
        upsert_docs_same_key [of k, unfolded ku] upsert_docs_other_keys [of k, unfolded ku])
  have z: "g = GitHubRepo_zero \<longrightarrow>
            k = \<lparr>UserID = uid, RepoID = ''0'', RepoName = [], RepoURL = [], Language = [],
                 Description = [], Notes = []\<rparr>"
    by (simp add: assms(4) GitHubRepo_zero_def to_int_0 Itoa_0)
  from c u z show ?thesis by blast
qed

text \<open>
  The theorem for the body \<^verbatim>\<open>{\<close>, which is not JSON, posted by \<open>u1\<close> to a store
  that holds its records of repositories 42 and 0: the answer is 201 with the zero-valued
  record, which has replaced the record under \<^verbatim>\<open>"0"\<close>; the record of 42 stays.
\<close>

theorem unparsable_body_upserted_witness:
  "Unmarshal_fails ''{'' GitHubRepo_zero = (GitHubRepo_zero, Some (ErrOther ''invalid character'')) \<and>
   (case http_Create Int64 Unmarshal_fails ResponseWriter_new
           (request_of ''POST'' ''/kudos'' ''u1'' ''{'') []
           (world_of [kudo_u1_42, (kudo_of ''u1'' ''0'')\<lparr>Notes := ''old''\<rparr>]) of
      Panic msg \<Rightarrow> False
    | Return (w', st') \<Rightarrow>
        sent w' = Some (201, Map.empty) \<and> written w' = [JSON_Kudo (kudo_of ''u1'' ''0'')] \<and>
        records_of_key ''u1'' ''0'' st' = [kudo_of ''u1'' ''0''] \<and>
        records_of_key ''u1'' ''42'' st' = [kudo_u1_42])"
proof -
  let ?r = "request_of ''POST'' ''/kudos'' ''u1'' ''{''"
  let ?st = "world_of [kudo_u1_42, (kudo_of ''u1'' ''0'')\<lparr>Notes := ''old''\<rparr>]"
  have h: "Unmarshal_fails (ReqBody ?r) GitHubRepo_zero
      = (GitHubRepo_zero, Some (ErrOther ''invalid character''))"
    by (simp add: Unmarshal_fails_def)
  have c: "Context ?r ''userId'' = Some ''u1''"
    by (simp add: request_of_def)
  have n: "sent ResponseWriter_new = None"
    by (simp add: ResponseWriter_new_def)
  have k: "kudo_of ''u1'' ''0'' =
      \<lparr>UserID = ''u1'', RepoID = Itoa (to_int Int64 (gh_RepoID GitHubRepo_zero)),
       RepoName = gh_RepoName GitHubRepo_zero, RepoURL = gh_RepoURL GitHubRepo_zero,
       Language = gh_Language GitHubRepo_zero, Description = gh_Description GitHubRepo_zero,
       Notes = gh_Notes GitHubRepo_zero\<rparr>"
    by (simp add: kudo_of_def Kudo_zero_def GitHubRepo_zero_def to_int_0 Itoa_0)
  have s: "records_of_key ''u1'' ''0'' ?st = [(kudo_of ''u1'' ''0'')\<lparr>Notes := ''old''\<rparr>]"
    "filter (\<lambda>d. \<not> same_key ''u1'' ''0'' d) (docs ?st) = [kudo_u1_42]"
    "fault ?st = None" "RepoID (kudo_of ''u1'' ''0'') = ''0''"
    by (simp_all add: records_of_key_def same_key_def world_of_def kudo_of_def Kudo_zero_def
        kudo_u1_42_def)
  have o: "records_of_key ''u1'' ''42'' st' = [kudo_u1_42]"
    if "filter (\<lambda>d. \<not> same_key ''u1'' ''0'' d) (docs st') = [kudo_u1_42]" for st'
  proof -
    have "records_of_key ''u1'' ''42'' st' =
        filter (same_key ''u1'' ''42'') (filter (\<lambda>d. \<not> same_key ''u1'' ''0'' d) (docs st'))"
      by (auto simp: records_of_key_same_key same_key_def intro: filter_cong)
    also have "\<dots> = filter (same_key ''u1'' ''42'') [kudo_u1_42]"
      by (simp only: that)
    also have "\<dots> = [kudo_u1_42]"
      by (simp add: same_key_def kudo_u1_42_def)
    finally show ?thesis .
  qed
  note t = unparsable_body_upserted [where Unmarshal = Unmarshal_fails and r = ?r
      and w = ResponseWriter_new and a = Int64 and params = "[]" and st = ?st, OF h c n k,
      THEN conjunct1]
  show ?thesis
    using t o
    by (auto simp: s Unmarshal_fails_def ResponseWriter_new_def split: outcome.splits prod.splits)
qed

text \<open>
  Claim C9 as stated fails: for a body with a field of the wrong type
  \<^verbatim>\<open>json.Unmarshal\<close> reports an error, and the answer is 201 with a record that is
  not zero-valued: it has the identifier 42 and the language Go of the body.
\<close>

theorem unparsable_body_decoded_fields_counterexample:
  "snd (Unmarshal_type_error body_type_error GitHubRepo_zero) \<noteq> None \<and>
   http_Create Int64 Unmarshal_type_error ResponseWriter_new
       (request_of ''POST'' ''/kudos'' ''u1'' body_type_error) [] world_empty
     = Return (\<lparr>Header = Map.empty, sent = Some (201, Map.empty),
                written = [JSON_Kudo ((kudo_of ''u1'' ''42'')\<lparr>Language := ''Go''\<rparr>)]\<rparr>,
               world_of [(kudo_of ''u1'' ''42'')\<lparr>Language := ''Go''\<rparr>]) \<and>
   (kudo_of ''u1'' ''42'')\<lparr>Language := ''Go''\<rparr> \<noteq> kudo_of ''u1'' ''0''"
  by (simp add: Unmarshal_type_error_def http_Create_def request_of_def NewService_def
      CreateKudoFor_def coll_Upsert_def world_empty_def world_of_def kudo_of_def Kudo_zero_def
      githubRepoToKudo_def GitHubRepo_zero_def to_int_def Itoa_def digits.simps digit_char_def
      ResponseWriter_new_def WriteHeader_def Write_def StatusCreated_def Let_def)

lemma http_Delete_result:
  "Context r ''userId'' = Some uid \<Longrightarrow>
   http_Delete a w r params st =
     (case RemoveKudo a (NewService uid)
             (GitHubRepo_zero\<lparr>gh_RepoID := to_int64 (fst (Atoi a (ByName params ''id'')))\<rparr>) st of
        (Inl err, st') \<Rightarrow> Return (WriteHeader StatusInternalServerError w, st')
      | (Inr kudo, st') \<Rightarrow> Return (WriteHeader StatusOK w, st'))"
  by (simp add: http_Delete_def Let_def)

text \<open>
  Claim C10, as the code has it. For a DELETE whose \<open>id\<close> is not a decimal integer,
  the handler drops the error of \<open>Atoi\<close> and goes on with its value \<open>n\<close>: 0 while the
  leading digits of the identifier (after an optional sign) stay below \<open>2 ^ IntSize\<close>,
  and else the smallest \<^verbatim>\<open>int\<close> after a minus sign, the largest otherwise. It
  deletes the record under the key (user of the request, \<open>Itoa n\<close>), which is
  \<^verbatim>\<open>"0"\<close> in the first case: with a working store that holds such a record it
  answers 200 and the first record under the key is gone; otherwise it answers 500 and
  changes nothing. Every other record stays, nothing is written to the body, and the
  malformed identifier is never reported.
\<close>

theorem Delete_malformed_id:
  assumes "\<not> decimal_integer (ByName params ''id'')"
    and "Context r ''userId'' = Some uid"
    and "sent w = None"
    and "n = (if decimal_value (takeWhile is_digit (unsigned_part (ByName params ''id'')))
                 < 2 ^ IntSize a then 0
              else if take 1 (ByName params ''id'') = ''-'' then - (2 ^ (IntSize a - 1))
              else 2 ^ (IntSize a - 1) - 1)"
    and "rid = Itoa n"
  shows "fst (Atoi a (ByName params ''id'')) = n \<and>
         (decimal_value (takeWhile is_digit (unsigned_part (ByName params ''id''))) < 2 ^ IntSize a
            \<longrightarrow> rid = ''0'') \<and>
         (case http_Delete a w r params st of
            Panic msg \<Rightarrow> False
          | Return (w', st') \<Rightarrow>
              Header w' = Header w \<and> written w' = written w \<and>
              fault st' = fault st \<and> logged st' = logged st \<and>
              filter (\<lambda>d. \<not> same_key uid rid d) (docs st') =
                filter (\<lambda>d. \<not> same_key uid rid d) (docs st) \<and>
              (if fault st = None \<and> has_key uid rid st
               then sent w' = Some (200, Header w) \<and>
                    records_of_key uid rid st' = tl (records_of_key uid rid st)
               else sent w' = Some (500, Header w) \<and> st' = st))"
proof -
  have at: "fst (Atoi a (ByName params ''id'')) = n"
    using Atoi_malformed [OF assms(1), of a] by (simp add: assms(4))
  have z: "decimal_value (takeWhile is_digit (unsigned_part (ByName params ''id''))) < 2 ^ IntSize a
            \<longrightarrow> rid = ''0''"
    by (simp add: assms(4,5) Itoa_0)
  have "- (2 ^ (IntSize a - 1)) \<le> n" and "n < 2 ^ (IntSize a - 1)"
    by (simp_all add: assms(4))
  then have "to_int a (to_int64 n) = n"
    by (rule to_int_to_int64)
  then have k: "githubRepoToKudo a (NewService uid) (GitHubRepo_zero\<lparr>gh_RepoID := to_int64 n\<rparr>)
      = kudo_of uid rid"
    by (simp add: githubRepoToKudo_def GitHubRepo_zero_def kudo_of_def Kudo_zero_def
        NewService_def assms(5))
  have ku: "UserID (kudo_of uid rid) = uid" "RepoID (kudo_of uid rid) = rid"
    by (simp_all add: kudo_of_def)
  have "case http_Delete a w r params st of
            Panic msg \<Rightarrow> False
          | Return (w', st') \<Rightarrow>
              Header w' = Header w \<and> written w' = written w \<and>
              fault st' = fault st \<and> logged st' = logged st \<and>
              filter (\<lambda>d. \<not> same_key uid rid d) (docs st') =
                filter (\<lambda>d. \<not> same_key uid rid d) (docs st) \<and>
              (if fault st = None \<and> has_key uid rid st
               then sent w' = Some (200, Header w) \<and>
                    records_of_key uid rid st' = tl (records_of_key uid rid st)
               else sent w' = Some (500, Header w) \<and> st' = st)"
    using MongoRepository_Delete_outcome [where k = "kudo_of uid rid" and st = st, unfolded ku] assms(2,3)
    by (auto simp: http_Delete_result at k RemoveKudo_def WriteHeader_def StatusOK_def
        StatusInternalServerError_def split: prod.splits option.splits if_splits)
  with at z show ?thesis by blast
qed

text \<open>
  The theorem for \<^verbatim>\<open>DELETE /kudos/12a\<close> by \<open>u1\<close>, whose store holds records under
  \<^verbatim>\<open>"12"\<close> and \<^verbatim>\<open>"0"\<close>: the record under \<^verbatim>\<open>"0"\<close> is deleted, the one under
  \<^verbatim>\<open>"12"\<close> stays, and the answer is 200.
\<close>

theorem Delete_malformed_id_witness:
  "\<not> decimal_integer ''12a'' \<and>
   decimal_value (takeWhile is_digit (unsigned_part ''12a'')) < 2 ^ IntSize Int64 \<and>
   (case http_Delete Int64 ResponseWriter_new (request_of ''DELETE'' ''/kudos/12a'' ''u1'' [])
           [(''id'', ''12a'')] (world_of [kudo_of ''u1'' ''12'', kudo_of ''u1'' ''0'']) of
      Panic msg \<Rightarrow> False
    | Return (w', st') \<Rightarrow>
        sent w' = Some (200, Map.empty) \<and> records_of_key ''u1'' ''0'' st' = [] \<and>
        records_of_key ''u1'' ''12'' st' = [kudo_of ''u1'' ''12''])"
proof -
  let ?r = "request_of ''DELETE'' ''/kudos/12a'' ''u1'' []"
  let ?st = "world_of [kudo_of ''u1'' ''12'', kudo_of ''u1'' ''0'']"
  have i: "ByName [(''id'', ''12a'')] ''id'' = ''12a''"
    by (simp add: ByName_def)
  have h: "\<not> decimal_integer (ByName [(''id'', ''12a'')] ''id'')"
    by (simp add: i decimal_integer_def is_digit_def)
  have v: "decimal_value (takeWhile is_digit (unsigned_part ''12a'')) < 2 ^ IntSize Int64"
    by (simp add: decimal_value_def unsigned_part_def is_digit_def digit_val_def)
  have c: "Context ?r ''userId'' = Some ''u1''"
    by (simp add: request_of_def)
  have n: "sent ResponseWriter_new = None"
    by (simp add: ResponseWriter_new_def)
  have z: "(0::int) = (if decimal_value (takeWhile is_digit (unsigned_part (ByName [(''id'', ''12a'')] ''id'')))
                 < 2 ^ IntSize Int64 then 0
              else if take 1 (ByName [(''id'', ''12a'')] ''id'') = ''-'' then - (2 ^ (IntSize Int64 - 1))
              else 2 ^ (IntSize Int64 - 1) - 1)"
    using v by (simp add: i)
  have rid: "''0'' = Itoa 0"
    by (simp add: Itoa_0)
  have s: "records_of_key ''u1'' ''0'' ?st = [kudo_of ''u1'' ''0'']"
    "filter (\<lambda>d. \<not> same_key ''u1'' ''0'' d) (docs ?st) = [kudo_of ''u1'' ''12'']"
    "fault ?st = None" "has_key ''u1'' ''0'' ?st"
    by (simp_all add: records_of_key_def has_key_def same_key_def world_of_def kudo_of_def)
  have o: "records_of_key ''u1'' ''12'' st' = [kudo_of ''u1'' ''12'']"
    if "filter (\<lambda>d. \<not> same_key ''u1'' ''0'' d) (docs st') = [kudo_of ''u1'' ''12'']" for st'
  proof -
    have "records_of_key ''u1'' ''12'' st' =
        filter (same_key ''u1'' ''12'') (filter (\<lambda>d. \<not> same_key ''u1'' ''0'' d) (docs st'))"
      by (auto simp: records_of_key_same_key same_key_def intro: filter_cong)
    also have "\<dots> = filter (same_key ''u1'' ''12'') [kudo_of ''u1'' ''12'']"
      by (simp only: that)
    also have "\<dots> = [kudo_of ''u1'' ''12'']"
      by (simp add: same_key_def kudo_of_def)
    finally show ?thesis .
  qed
  note t = Delete_malformed_id [where params = "[(''id'', ''12a'')]" and r = ?r
      and w = ResponseWriter_new and a = Int64 and st = ?st, OF h c n z rid,
      THEN conjunct2, THEN conjunct2]
  show ?thesis
    using t o h v
    by (auto simp: s i ResponseWriter_new_def split: outcome.splits prod.splits)
qed

text \<open>
  Claim C10 as stated fails. The identifier \<^verbatim>\<open>99999999999999999999x\<close> is not a
  decimal integer, but its digits leave the range before \<open>Atoi\<close> reaches the \<^verbatim>\<open>x\<close>:
  \<open>Atoi\<close> reports a range error with the largest \<^verbatim>\<open>int\<close>, and the handler deletes
  the record under \<^verbatim>\<open>"9223372036854775807"\<close>, not the one under \<^verbatim>\<open>"0"\<close>.
\<close>

theorem Delete_overflowing_id_counterexample:
  "\<not> decimal_integer ''99999999999999999999x'' \<and>
   http_Delete Int64 ResponseWriter_new (request_of ''DELETE'' ''/kudos/99999999999999999999x'' ''u1'' [])
       [(''id'', ''99999999999999999999x'')]
       (world_of [kudo_of ''u1'' ''9223372036854775807'', kudo_of ''u1'' ''0''])
     = Return (WriteHeader StatusOK ResponseWriter_new, world_of [kudo_of ''u1'' ''0''])"
  by (simp add: decimal_integer_def is_digit_def http_Delete_def request_of_def ByName_def
      strconv_defs NewService_def RemoveKudo_def MongoRepository_Delete_def coll_Remove_def
      world_of_def kudo_of_def Kudo_zero_def githubRepoToKudo_def GitHubRepo_zero_def
      to_int64_def to_int_def Itoa_def digits.simps digit_char_def)

end
